theory Spec2Isabelle
  imports Main
begin

unbundle bit_operations_syntax

section \<open>Exceptions as values\<close>

text \<open>
  The Python exceptions the program can run into. \<open>AddressValueError\<close> and
  \<open>NetmaskValueError\<close> are the two subclasses of \<open>ValueError\<close> raised by the standard
  \<open>ipaddress\<close> module; \<open>TransportError\<close> stands for whatever the HTTP client library raises
  instead of returning a response (no response arrived, or the library turns an error
  status into an exception), and \<open>JSONDecodeError\<close> for a body that is not JSON.
\<close>

datatype error =
    TypeError
  | IndexError
  | OverflowError
  | ValueError
  | AddressValueError
  | NetmaskValueError
  | JSONDecodeError
  | TransportError

text \<open>\<open>except ValueError\<close> catches the class and its subclasses.\<close>

fun is_ValueError :: "error \<Rightarrow> bool" where
  "is_ValueError ValueError = True"
| "is_ValueError AddressValueError = True"
| "is_ValueError NetmaskValueError = True"
| "is_ValueError JSONDecodeError = True"
| "is_ValueError _ = False"

section \<open>Constants of the script\<close>

definition RIPE_RIS_INTERVAL :: int where
  "RIPE_RIS_INTERVAL = 8"

definition RIPE_RIS_DEFAULT_N_DUMPS_BACK :: int where
  "RIPE_RIS_DEFAULT_N_DUMPS_BACK = 3"

definition HOURS_PER_DAY :: int where
  "HOURS_PER_DAY = 24"

definition RIPE_STAT_BASE_URL :: string where
  "RIPE_STAT_BASE_URL = ''https://stat.ripe.net/data/''"

section \<open>Strings\<close>

text \<open>\<open>str(i)\<close> for a Python integer: decimal digits, with a minus sign when negative.\<close>

definition digit_char :: "nat \<Rightarrow> char" where
  "digit_char d = ''0123456789'' ! d"

fun str_nat :: "nat \<Rightarrow> string" where
  "str_nat n = (if n < 10 then [digit_char n] else str_nat (n div 10) @ [digit_char (n mod 10)])"

declare str_nat.simps [simp del]

definition str_int :: "int \<Rightarrow> string" where
  "str_int i = (if i < 0 then CHR ''-'' # str_nat (nat (- i)) else str_nat (nat i))"

text \<open>\<open>sep.join(parts)\<close>.\<close>

fun join :: "string \<Rightarrow> string list \<Rightarrow> string" where
  "join sep [] = []"
| "join sep [p] = p"
| "join sep (p # q # ps) = p @ sep @ join sep (q # ps)"

text \<open>The format field \<open>{: >w}\<close>: right-aligned, padded on the left with spaces, never cut.\<close>

definition rjust :: "nat \<Rightarrow> string \<Rightarrow> string" where
  "rjust w s = replicate (w - length s) CHR '' '' @ s"

section \<open>The comparator\<close>

text \<open>
  One element of \<open>data.bgp_state\<close> in a decoded response: the observing collector or peer
  and the AS path it saw. The source-id is a string or an integer; the model leaves its
  type open.
\<close>

record 'sid bgp_state =
  source_id :: 'sid
  path :: "int list"

text \<open>
  A decoded response body is modelled by the list found under \<open>['data']['bgp_state']\<close>, in the
  shape the service documents. What \<open>ris_get_bgp_state\<close> hands to the comparator is either
  such a body or \<open>None\<close>.
\<close>

type_synonym 'sid body = "'sid bgp_state list"

text \<open>
  A Python \<open>dict\<close> as an association list in insertion order. Assigning to a key that is
  present replaces the value where the key stands; a new key goes to the end.
\<close>

fun dict_set :: "('k \<times> 'v) list \<Rightarrow> 'k \<Rightarrow> 'v \<Rightarrow> ('k \<times> 'v) list" where
  "dict_set [] k v = [(k, v)]"
| "dict_set ((k', v') # d) k v =
     (if k' = k then (k', v) # d else (k', v') # dict_set d k v)"

text \<open>
  The first two loops of \<open>ris_compare_aspaths\<close>:
  \<^verbatim>\<open>for bgp_state in then['data']['bgp_state']:
      then_paths[bgp_state['source_id']] = bgp_state['path']\<close>
\<close>

definition collect_paths :: "'sid body \<Rightarrow> ('sid \<times> int list) list" where
  "collect_paths bs = foldl (\<lambda>d b. dict_set d (source_id b) (path b)) [] bs"

text \<open>
  \<^verbatim>\<open>def lists_equal(a, b):
      if len(a) != len(b):
          return False
      return numpy.all(numpy.asarray(a) == numpy.asarray(b))\<close>
  When every element of both lists is within the signed 64-bit range, from \<open>-2^63\<close> up to
  \<open>2^63 - 1\<close>, both arrays are
  integer arrays: \<open>==\<close> compares them position by position, exactly, and \<open>numpy.all\<close> holds
  when every position compared equal. A list with an element outside that range becomes an
  array of another kind (unsigned, floating point or of objects), whose comparison depends
  on the version of numpy and need not be exact; the model leaves it open as the parameter
  \<open>numpy_wide\<close>. AS numbers are 32-bit values, so AS paths are always of the first kind.
\<close>

definition fits_int64 :: "int \<Rightarrow> bool" where
  "fits_int64 x \<longleftrightarrow> - 9223372036854775808 \<le> x \<and> x < 9223372036854775808"

definition as_number :: "int \<Rightarrow> bool" where
  "as_number x \<longleftrightarrow> 0 \<le> x \<and> x < 4294967296"

definition lists_equal :: "(int list \<Rightarrow> int list \<Rightarrow> bool) \<Rightarrow> int list \<Rightarrow> int list \<Rightarrow> bool" where
  "lists_equal numpy_wide a b =
     (if length a \<noteq> length b then False
      else if list_all fits_int64 a \<and> list_all fits_int64 b then
        list_all (\<lambda>(x, y). x = y) (zip a b)
      else numpy_wide a b)"

text \<open>
  The printed line:
  \<^verbatim>\<open>"{: >35} --> {: >35}".format(" ".join(map(str, path)),
                                " ".join(map(str, now_paths[source_id])))\<close>
\<close>

definition format_line :: "int list \<Rightarrow> int list \<Rightarrow> string" where
  "format_line p q =
     rjust 35 (join '' '' (map str_int p)) @ '' --> '' @ rjust 35 (join '' '' (map str_int q))"

text \<open>
  The third loop, over \<open>then_paths.items()\<close>. Each printed line is kept together with the
  source-id of the iteration that printed it; standard output is the list of second
  components.
\<close>

fun compare_loop ::
    "(int list \<Rightarrow> int list \<Rightarrow> bool) \<Rightarrow> ('sid \<times> int list) list \<Rightarrow> ('sid \<times> int list) list
      \<Rightarrow> ('sid \<times> string) list" where
  "compare_loop numpy_wide [] now_paths = []"
| "compare_loop numpy_wide ((sid, p) # rest) now_paths =
     (case map_of now_paths sid of
        None \<Rightarrow> compare_loop numpy_wide rest now_paths
      | Some q \<Rightarrow>
          (if \<not> lists_equal numpy_wide p q then
             (sid, format_line p q) # compare_loop numpy_wide rest now_paths
           else compare_loop numpy_wide rest now_paths))"

text \<open>
  \<open>ris_compare_aspaths(then, now)\<close>. Subscripting \<open>None\<close> raises \<open>TypeError\<close>; both
  dictionaries are built before anything is printed, so a run that raises has printed
  nothing.
\<close>

definition ris_compare_aspaths ::
    "(int list \<Rightarrow> int list \<Rightarrow> bool) \<Rightarrow> 'sid body option \<Rightarrow> 'sid body option
      \<Rightarrow> error + ('sid \<times> string) list" where
  "ris_compare_aspaths numpy_wide then_res now_res =
     (case then_res of
        None \<Rightarrow> Inl TypeError
      | Some then_body \<Rightarrow>
          (case now_res of
             None \<Rightarrow> Inl TypeError
           | Some now_body \<Rightarrow>
               Inr (compare_loop numpy_wide (collect_paths then_body)
                      (collect_paths now_body))))"

section \<open>The routing-information client\<close>

text \<open>
  What \<open>super().get(url)\<close> hands back: the status code, and the outcome of calling
  \<open>res.json()\<close> on it (the decoded body, or the exception of a body that is not JSON).
  The type of decoded bodies is left open here.
\<close>

record 'j response =
  status_code :: int
  json :: "error + 'j"

text \<open>The class \<open>RIPEstat\<close>: its two attributes and its class constant.\<close>

record RIPEstat =
  BASEURL :: string
  sourceapp :: string

definition VALID_RESP_CODE :: "int list" where
  "VALID_RESP_CODE = [200]"

text \<open>
  \<open>__init__(self, baseurl=None)\<close>: \<open>BASEURL\<close> keeps its class default \<open>""\<close> unless a
  non-empty \<open>baseurl\<close> is given; \<open>sourceapp\<close> is the script's file name
  (\<open>os.path.basename(__file__)\<close>), a parameter here.
\<close>

definition RIPEstat_init :: "string \<Rightarrow> string option \<Rightarrow> RIPEstat" where
  "RIPEstat_init script baseurl =
     \<lparr>BASEURL = (case baseurl of None \<Rightarrow> [] | Some u \<Rightarrow> if u \<noteq> [] then u else []),
      sourceapp = script\<rparr>"

text \<open>
  \<open>__querystring(self, method, params)\<close>; \<open>params\<close> is \<open>None\<close> or a dictionary of strings,
  read in insertion order.
\<close>

definition RIPEstat_querystring ::
    "RIPEstat \<Rightarrow> string \<Rightarrow> (string \<times> string) list option \<Rightarrow> string" where
  "RIPEstat_querystring self method params =
     (let params_str = ''sourceapp='' @ sourceapp self in
      if method \<noteq> ''get'' then params_str
      else (case params of
              None \<Rightarrow> params_str
            | Some kvs \<Rightarrow> foldl (\<lambda>acc (k, v). acc @ ''&'' @ k @ ''='' @ v) params_str kvs))"

text \<open>\<open>__url(self, datacall, qs)\<close>.\<close>

definition RIPEstat_url :: "RIPEstat \<Rightarrow> string \<Rightarrow> string \<Rightarrow> string" where
  "RIPEstat_url self datacall qs = BASEURL self @ datacall @ ''/data.json?'' @ qs"

text \<open>
  \<^verbatim>\<open>def __response(self, res):
      if res.status_code in self.VALID_RESP_CODE:
          return res.json()
      else:
          return None\<close>
\<close>

definition RIPEstat_response :: "'j response \<Rightarrow> error + 'j option" where
  "RIPEstat_response res =
     (if status_code res \<in> set VALID_RESP_CODE then
        (case json res of Inl e \<Rightarrow> Inl e | Inr j \<Rightarrow> Inr (Some j))
      else Inr None)"

text \<open>
  \<open>get(self, datacall, params=None)\<close>. The transport \<open>http\<close> stands for the inherited
  \<open>APIClient.get\<close>, which is not part of the repository: for a URL it gives the response
  object it returns, or the exception it raises. It may raise although a response arrived:
  a client library can turn an error status such as 404 into an exception of its own, and
  then \<open>__response\<close> is never reached.
\<close>

definition RIPEstat_get ::
    "RIPEstat \<Rightarrow> (string \<Rightarrow> error + 'j response) \<Rightarrow> string \<Rightarrow> (string \<times> string) list option
      \<Rightarrow> error + 'j option" where
  "RIPEstat_get self http datacall params =
     (case http (RIPEstat_url self datacall (RIPEstat_querystring self ''get'' params)) of
        Inl e \<Rightarrow> Inl e
      | Inr res \<Rightarrow> RIPEstat_response res)"

text \<open>
  \<^verbatim>\<open>def ris_get_bgp_state(resource, timestamp):
      r = RIPEstat(baseurl=RIPE_STAT_BASE_URL)
      kwargs = {'resource': resource, 'timestamp': timestamp}
      return r.get('bgp-state', kwargs)\<close>
  \<open>bgp_state_url\<close> is the URL this call requests.
\<close>

definition bgp_state_url :: "string \<Rightarrow> string \<Rightarrow> string \<Rightarrow> string" where
  "bgp_state_url script resource timestamp =
     (let r = RIPEstat_init script (Some RIPE_STAT_BASE_URL) in
      RIPEstat_url r ''bgp-state''
        (RIPEstat_querystring r ''get''
           (Some [(''resource'', resource), (''timestamp'', timestamp)])))"

definition ris_get_bgp_state ::
    "string \<Rightarrow> (string \<Rightarrow> error + 'j response) \<Rightarrow> string \<Rightarrow> string \<Rightarrow> error + 'j option" where
  "ris_get_bgp_state script http resource timestamp =
     (let r = RIPEstat_init script (Some RIPE_STAT_BASE_URL);
          kwargs = [(''resource'', resource), (''timestamp'', timestamp)]
      in RIPEstat_get r http ''bgp-state'' (Some kwargs))"

section \<open>Dates and times\<close>

text \<open>
  A naive local \<open>datetime\<close> is the number of microseconds since 0001-01-01T00:00:00, a
  \<open>date\<close> the number of days since 0001-01-01 (its proleptic Gregorian ordinal minus one),
  a \<open>timedelta\<close> a number of microseconds. Python's \<open>datetime\<close> and \<open>date\<close> end with
  9999-12-31, whose ordinal is 3652059; arithmetic that leaves the range raises
  \<open>OverflowError\<close>.
\<close>

type_synonym datetime = int
type_synonym date = int
type_synonym timedelta = int

definition US_PER_HOUR :: int where
  "US_PER_HOUR = 3600000000"

definition US_PER_DAY :: int where
  "US_PER_DAY = 86400000000"

definition MAX_DAYS :: int where
  "MAX_DAYS = 3652059"

definition valid_datetime :: "datetime \<Rightarrow> bool" where
  "valid_datetime t \<longleftrightarrow> 0 \<le> t \<and> t < MAX_DAYS * US_PER_DAY"

text \<open>The calendar day a datetime falls on, and the datetime of a day's midnight.\<close>

definition date_of :: "datetime \<Rightarrow> date" where
  "date_of t = t div US_PER_DAY"

definition midnight :: "date \<Rightarrow> datetime" where
  "midnight d = d * US_PER_DAY"

text \<open>
  \<open>timedelta(hours=h)\<close>: the day count of the normalised value must lie within
  \<open>\<plusminus>999999999\<close>.
\<close>

definition timedelta_hours :: "int \<Rightarrow> error + timedelta" where
  "timedelta_hours h =
     (if - 999999999 \<le> h div 24 \<and> h div 24 \<le> 999999999 then Inr (h * US_PER_HOUR)
      else Inl OverflowError)"

text \<open>\<open>dt - delta\<close> on a \<open>datetime\<close>.\<close>

definition datetime_sub :: "datetime \<Rightarrow> timedelta \<Rightarrow> error + datetime" where
  "datetime_sub t delta =
     (if valid_datetime (t - delta) then Inr (t - delta) else Inl OverflowError)"

text \<open>
  Modelled from the spec: \<open>rrule\<close> of the \<open>dateutil\<close> library, which is not part of the
  repository, called as \<open>rrule(HOURLY, interval=i, dtstart=d, count=c)\<close>. The spec has it
  give the timestamps spaced every \<open>i\<close> hours starting at the midnight of \<open>d\<close>, \<open>c\<close> of them;
  a count of zero or less gives none, and the library stops without an error at the end
  of year 9999, the last a \<open>datetime\<close> can hold.
\<close>

definition rrule_hourly :: "int \<Rightarrow> date \<Rightarrow> int \<Rightarrow> datetime list" where
  "rrule_hourly interval dtstart count =
     takeWhile valid_datetime
       (map (\<lambda>i. midnight dtstart + int i * (interval * US_PER_HOUR)) [0..<nat count])"

text \<open>
  \<^verbatim>\<open>def ris_get_dump_times():
      n_dumps_per_day = HOURS_PER_DAY / RIPE_RIS_INTERVAL
      return list(rrule(HOURLY, interval=RIPE_RIS_INTERVAL, dtstart=date.today(),
                        count=n_dumps_per_day * args[0].n))\<close>
  \<open>today\<close> is what \<open>date.today()\<close> returns and \<open>n\<close> is \<open>args[0].n\<close>. The quotient is the
  float \<open>3.0\<close>, so the product converts \<open>n\<close> to a float: that raises \<open>OverflowError\<close> from
  \<open>2^1024 - 2^970\<close> on, and below it the count it passes selects the same timestamps as
  the exact \<open>3 * n\<close> does, a list that reaches year 9999 being far shorter than \<open>2^53\<close>.
\<close>

definition ris_get_dump_times :: "date \<Rightarrow> int \<Rightarrow> error + datetime list" where
  "ris_get_dump_times today n =
     (let n_dumps_per_day = HOURS_PER_DAY div RIPE_RIS_INTERVAL in
      if \<bar>n\<bar> < 2 ^ 1024 - 2 ^ 970 then
        Inr (rrule_hourly RIPE_RIS_INTERVAL today (n_dumps_per_day * n))
      else Inl OverflowError)"

text \<open>
  \<open>bisect\<close> of the standard library (\<open>bisect_right\<close> with \<open>lo = 0\<close>, \<open>hi = len(a)\<close>):
  \<^verbatim>\<open>while lo < hi:
      mid = (lo + hi) // 2
      if x < a[mid]: hi = mid
      else: lo = mid + 1
  return lo\<close>
\<close>

function bisect_loop :: "datetime list \<Rightarrow> datetime \<Rightarrow> nat \<Rightarrow> nat \<Rightarrow> nat" where
  "bisect_loop a x lo hi =
     (if lo < hi then
        (let mid = (lo + hi) div 2 in
         if x < a ! mid then bisect_loop a x lo mid else bisect_loop a x (mid + 1) hi)
      else lo)"
  by pat_completeness auto
termination
  by (relation "measure (\<lambda>(a, x, lo, hi). hi - lo)") auto

declare bisect_loop.simps [simp del]

definition bisect :: "datetime list \<Rightarrow> datetime \<Rightarrow> nat" where
  "bisect a x = bisect_loop a x 0 (length a)"

text \<open>\<open>xs[i]\<close> for an index that is not negative: out of range raises \<open>IndexError\<close>.\<close>

definition list_index :: "'a list \<Rightarrow> nat \<Rightarrow> error + 'a" where
  "list_index xs i = (if i < length xs then Inr (xs ! i) else Inl IndexError)"

text \<open>
  \<^verbatim>\<open>def ris_get_last_dump_datetime():
      times = ris_get_dump_times()
      dt = datetime.now() - timedelta(hours=RIPE_RIS_INTERVAL * args[0].n)
      return times[bisect(times, dt)]\<close>
  \<open>today\<close> is the reading of \<open>date.today()\<close> inside \<open>ris_get_dump_times\<close>, \<open>now\<close> the reading
  of \<open>datetime.now()\<close> on the next line; \<open>dump_times\<close> is the source's \<open>times\<close>.
\<close>

definition ris_get_last_dump_datetime :: "date \<Rightarrow> datetime \<Rightarrow> int \<Rightarrow> error + datetime" where
  "ris_get_last_dump_datetime today now n =
     (case ris_get_dump_times today n of
        Inl e \<Rightarrow> Inl e
      | Inr dump_times \<Rightarrow>
          (case timedelta_hours (RIPE_RIS_INTERVAL * n) of
             Inl e \<Rightarrow> Inl e
           | Inr delta \<Rightarrow>
               (case datetime_sub now delta of
                  Inl e \<Rightarrow> Inl e
                | Inr dt \<Rightarrow> list_index dump_times (bisect dump_times dt))))"

text \<open>
  The calendar date of a proleptic Gregorian ordinal, as the \<open>datetime\<close> module computes
  it (\<open>_ord2ymd\<close>): \<open>(year, month, day)\<close>.
\<close>

definition DAYS_IN_MONTH :: "int list" where
  "DAYS_IN_MONTH = [- 1, 31, 28, 31, 30, 31, 30, 31, 31, 30, 31, 30, 31]"

definition DAYS_BEFORE_MONTH :: "int list" where
  "DAYS_BEFORE_MONTH = [- 1, 0, 31, 59, 90, 120, 151, 181, 212, 243, 273, 304, 334]"

definition ord2ymd :: "int \<Rightarrow> int \<times> int \<times> int" where
  "ord2ymd ordinal =
     (let n0 = ordinal - 1;
          n400 = n0 div 146097; r400 = n0 mod 146097;
          n100 = r400 div 36524; r100 = r400 mod 36524;
          n4 = r100 div 1461; r4 = r100 mod 1461;
          n1 = r4 div 365; r = r4 mod 365;
          year = n400 * 400 + 1 + n100 * 100 + n4 * 4 + n1
      in if n1 = 4 \<or> n100 = 4 then (year - 1, 12, 31)
         else
           (let leapyear = (n1 = 3 \<and> (n4 \<noteq> 24 \<or> n100 = 3));
                month = (r + 50) div 32;
                preceding = DAYS_BEFORE_MONTH ! nat month
                              + (if month > 2 \<and> leapyear then 1 else 0)
            in if preceding > r then
                 (let month' = month - 1;
                      preceding' = preceding - (DAYS_IN_MONTH ! nat month'
                                     + (if month' = 2 \<and> leapyear then 1 else 0))
                  in (year, month', r - preceding' + 1))
               else (year, month, r - preceding + 1)))"

text \<open>A number in decimal, with zeros in front up to the width \<open>w\<close>.\<close>

definition zero_pad :: "nat \<Rightarrow> int \<Rightarrow> string" where
  "zero_pad w i = replicate (w - length (str_int i)) CHR ''0'' @ str_int i"

text \<open>
  \<^verbatim>\<open>def ris_format_timestamp(dt):
      return dt.strftime("%Y-%m-%dT%H:%M")\<close>
  \<open>%Y\<close> is the year as the C library of Linux prints it, without padding: four digits
  from year 1000 on, fewer before. The other fields are two digits wide.
\<close>

definition ris_format_timestamp :: "datetime \<Rightarrow> string" where
  "ris_format_timestamp dt =
     (case ord2ymd (date_of dt + 1) of
        (year, month, day) \<Rightarrow>
          (let hour = dt mod US_PER_DAY div US_PER_HOUR;
               minute = dt mod US_PER_HOUR div 60000000
           in str_int year @ ''-'' @ zero_pad 2 month @ ''-'' @ zero_pad 2 day
                @ ''T'' @ zero_pad 2 hour @ '':'' @ zero_pad 2 minute))"

section \<open>Target validation\<close>

subsection \<open>String helpers\<close>

text \<open>\<open>s.split(sep)\<close> with a one-character separator: always at least one part.\<close>

fun split_on :: "char \<Rightarrow> string \<Rightarrow> string list" where
  "split_on sep [] = [[]]"
| "split_on sep (c # cs) =
     (if c = sep then [] # split_on sep cs
      else (case split_on sep cs of
              [] \<Rightarrow> [[c]]
            | p # ps \<Rightarrow> (c # p) # ps))"

text \<open>\<open>s.isascii() and s.isdigit()\<close>: not empty, and ASCII decimal digits only.\<close>

definition is_digits :: "string \<Rightarrow> bool" where
  "is_digits s \<longleftrightarrow> s \<noteq> [] \<and> list_all (\<lambda>c. c \<in> set ''0123456789'') s"

definition HEX_DIGITS :: "char set" where
  "HEX_DIGITS = set ''0123456789ABCDEFabcdef''"

fun index_of :: "char \<Rightarrow> string \<Rightarrow> nat" where
  "index_of c [] = 0"
| "index_of c (d # ds) = (if c = d then 0 else Suc (index_of c ds))"

text \<open>The value of one digit character, hexadecimal letters in either case.\<close>

definition digit_value :: "char \<Rightarrow> int" where
  "digit_value c =
     (if c \<in> set ''0123456789abcdef'' then int (index_of c ''0123456789abcdef'')
      else 10 + int (index_of c ''ABCDEF''))"

text \<open>\<open>int(s, base)\<close> on a string of digits of that base.\<close>

definition int_of_string :: "int \<Rightarrow> string \<Rightarrow> int" where
  "int_of_string base s = foldl (\<lambda>acc c. acc * base + digit_value c) 0 s"

text \<open>\<open>'%x' % n\<close> for a natural number.\<close>

fun hex_str :: "nat \<Rightarrow> string" where
  "hex_str n =
     (if n < 16 then [''0123456789abcdef'' ! n]
      else hex_str (n div 16) @ [''0123456789abcdef'' ! (n mod 16)])"

declare hex_str.simps [simp del]

text \<open>Applying a parser to every element, stopping at the first exception.\<close>

fun map_result :: "('a \<Rightarrow> error + 'b) \<Rightarrow> 'a list \<Rightarrow> error + 'b list" where
  "map_result f [] = Inr []"
| "map_result f (x # xs) =
     (case f x of
        Inl e \<Rightarrow> Inl e
      | Inr y \<Rightarrow> (case map_result f xs of Inl e \<Rightarrow> Inl e | Inr ys \<Rightarrow> Inr (y # ys)))"

subsection \<open>The standard library's \<open>ipaddress\<close> module\<close>

text \<open>
  \<open>IPv4Network\<close> and \<open>IPv6Network\<close> belong to Python's standard library, not to the
  repository. They are modelled after the module's source (CPython 3.11), function by
  function, as far as the constructors called on a string with \<open>strict=True\<close> go.
\<close>

fun bit_length_nat :: "nat \<Rightarrow> nat" where
  "bit_length_nat n = (if n = 0 then 0 else Suc (bit_length_nat (n div 2)))"

declare bit_length_nat.simps [simp del]

text \<open>\<open>k.bit_length()\<close>.\<close>

definition bit_length :: "int \<Rightarrow> nat" where
  "bit_length k = bit_length_nat (nat \<bar>k\<bar>)"

text \<open>
  \<^verbatim>\<open>def _count_righthand_zero_bits(number, bits):
      if number == 0:
          return bits
      return min(bits, (~number & (number-1)).bit_length())\<close>
\<close>

definition count_righthand_zero_bits :: "int \<Rightarrow> nat \<Rightarrow> nat" where
  "count_righthand_zero_bits number bits =
     (if number = 0 then bits else min bits (bit_length (NOT number AND (number - 1))))"

definition ALL_ONES :: "nat \<Rightarrow> int" where
  "ALL_ONES bits = 2 ^ bits - 1"

text \<open>\<open>_ip_int_from_prefix\<close>: \<open>_ALL_ONES ^ (_ALL_ONES >> prefixlen)\<close>.\<close>

definition ip_int_from_prefix :: "nat \<Rightarrow> nat \<Rightarrow> int" where
  "ip_int_from_prefix bits prefixlen = ALL_ONES bits XOR drop_bit prefixlen (ALL_ONES bits)"

text \<open>\<open>_prefix_from_ip_int\<close>: the prefix length of a netmask given as an integer.\<close>

definition prefix_from_ip_int :: "nat \<Rightarrow> int \<Rightarrow> error + nat" where
  "prefix_from_ip_int bits ip_int =
     (let trailing_zeroes = count_righthand_zero_bits ip_int bits;
          prefixlen = bits - trailing_zeroes;
          leading_ones = drop_bit trailing_zeroes ip_int;
          all_ones = push_bit prefixlen 1 - 1
      in if leading_ones \<noteq> all_ones then Inl ValueError else Inr prefixlen)"

text \<open>\<open>_prefix_from_prefix_string\<close>: a prefix length written in decimal.\<close>

definition prefix_from_prefix_string :: "nat \<Rightarrow> string \<Rightarrow> error + nat" where
  "prefix_from_prefix_string bits prefixlen_str =
     (if \<not> is_digits prefixlen_str then Inl NetmaskValueError
      else
        (let prefixlen = int_of_string 10 prefixlen_str in
         if \<not> (0 \<le> prefixlen \<and> prefixlen \<le> int bits) then Inl NetmaskValueError
         else Inr (nat prefixlen)))"

text \<open>\<open>_split_optional_netmask\<close>.\<close>

definition split_optional_netmask :: "string \<Rightarrow> error + string list" where
  "split_optional_netmask address =
     (let addr = split_on CHR ''/'' address in
      if length addr > 2 then Inl AddressValueError else Inr addr)"

text \<open>
  \<open>_split_addr_prefix\<close> on a string: the mask is the text after the slash, or the integer
  \<open>_max_prefixlen\<close> when there is no slash.
\<close>

datatype mask_arg = MaskInt int | MaskStr string

definition split_addr_prefix :: "nat \<Rightarrow> string \<Rightarrow> error + string \<times> mask_arg" where
  "split_addr_prefix max_prefixlen address =
     (case split_optional_netmask address of
        Inl e \<Rightarrow> Inl e
      | Inr parts \<Rightarrow>
          (if length parts > 1 then Inr (parts ! 0, MaskStr (parts ! 1))
           else Inr (parts ! 0, MaskInt (int max_prefixlen))))"

text \<open>\<open>_BaseV4._parse_octet\<close>.\<close>

definition parse_octet :: "string \<Rightarrow> error + int" where
  "parse_octet octet_str =
     (if octet_str = [] then Inl ValueError
      else if \<not> is_digits octet_str then Inl ValueError
      else if length octet_str > 3 then Inl ValueError
      else if octet_str \<noteq> ''0'' \<and> hd octet_str = CHR ''0'' then Inl ValueError
      else
        (let octet_int = int_of_string 10 octet_str in
         if octet_int > 255 then Inl ValueError else Inr octet_int))"

text \<open>
  \<open>_BaseV4._ip_int_from_string\<close>; the \<open>ValueError\<close> of an octet is raised again as
  \<open>AddressValueError\<close>. \<open>int.from_bytes(..., 'big')\<close> is the fold.
\<close>

definition ip_int_from_string_v4 :: "string \<Rightarrow> error + int" where
  "ip_int_from_string_v4 ip_str =
     (if ip_str = [] then Inl AddressValueError
      else
        (let octets = split_on CHR ''.'' ip_str in
         if length octets \<noteq> 4 then Inl AddressValueError
         else
           (case map_result parse_octet octets of
              Inl e \<Rightarrow> (if is_ValueError e then Inl AddressValueError else Inl e)
            | Inr bs \<Rightarrow> Inr (foldl (\<lambda>acc b. acc * 256 + b) 0 bs))))"

text \<open>\<open>IPv4Address(address)\<close> on a string.\<close>

definition IPv4Address :: "string \<Rightarrow> error + int" where
  "IPv4Address addr_str =
     (if CHR ''/'' \<in> set addr_str then Inl AddressValueError
      else ip_int_from_string_v4 addr_str)"

text \<open>
  \<open>_prefix_from_ip_string\<close>: a netmask or a hostmask in dotted form; \<open>ip_int ^= _ALL_ONES\<close>
  inverts the bits for the second attempt.
\<close>

definition prefix_from_ip_string_v4 :: "string \<Rightarrow> error + nat" where
  "prefix_from_ip_string_v4 ip_str =
     (case ip_int_from_string_v4 ip_str of
        Inl e \<Rightarrow> (if e = AddressValueError then Inl NetmaskValueError else Inl e)
      | Inr ip_int \<Rightarrow>
          (case prefix_from_ip_int 32 ip_int of
             Inr p \<Rightarrow> Inr p
           | Inl e \<Rightarrow>
               (if \<not> is_ValueError e then Inl e
                else
                  (case prefix_from_ip_int 32 (ip_int XOR ALL_ONES 32) of
                     Inr p \<Rightarrow> Inr p
                   | Inl e' \<Rightarrow> (if is_ValueError e' then Inl NetmaskValueError else Inl e')))))"

text \<open>
  \<open>_BaseV4._make_netmask\<close>: the netmask and the prefix length. A string is first read as
  a prefix length and, on \<open>NetmaskValueError\<close>, as a dotted netmask or hostmask.
\<close>

definition make_netmask_v4 :: "mask_arg \<Rightarrow> error + int \<times> nat" where
  "make_netmask_v4 arg =
     (case
        (case arg of
           MaskInt prefixlen \<Rightarrow>
             (if \<not> (0 \<le> prefixlen \<and> prefixlen \<le> 32) then Inl NetmaskValueError
              else Inr (nat prefixlen))
         | MaskStr s \<Rightarrow>
             (case prefix_from_prefix_string 32 s of
                Inr p \<Rightarrow> Inr p
              | Inl e \<Rightarrow> (if e = NetmaskValueError then prefix_from_ip_string_v4 s else Inl e)))
      of
        Inl e \<Rightarrow> Inl e
      | Inr prefixlen \<Rightarrow> Inr (ip_int_from_prefix 32 prefixlen, prefixlen))"

text \<open>
  \<open>IPv4Network(address)\<close> with the default \<open>strict=True\<close>: the address must be the
  network's own address, \<open>packed & netmask == packed\<close>. The result is the network address
  and the prefix length.
\<close>

definition IPv4Network :: "string \<Rightarrow> error + int \<times> nat" where
  "IPv4Network address =
     (case split_addr_prefix 32 address of
        Inl e \<Rightarrow> Inl e
      | Inr (addr, mask') \<Rightarrow>
          (case IPv4Address addr of
             Inl e \<Rightarrow> Inl e
           | Inr packed \<Rightarrow>
               (case make_netmask_v4 mask' of
                  Inl e \<Rightarrow> Inl e
                | Inr (netmask, prefixlen) \<Rightarrow>
                    (if packed AND netmask \<noteq> packed then Inl ValueError
                     else Inr (packed, prefixlen)))))"

text \<open>\<open>_BaseV6._parse_hextet\<close>; \<open>int('', 16)\<close> raises \<open>ValueError\<close>.\<close>

definition parse_hextet :: "string \<Rightarrow> error + int" where
  "parse_hextet hextet_str =
     (if \<not> set hextet_str \<subseteq> HEX_DIGITS then Inl ValueError
      else if length hextet_str > 4 then Inl ValueError
      else if hextet_str = [] then Inl ValueError
      else Inr (int_of_string 16 hextet_str))"

text \<open>
  The second half of \<open>_BaseV6._ip_int_from_string\<close>, from the check of the number of parts
  on. \<open>skips\<close> are the inner positions holding an empty part, where \<open>::\<close> stood.
\<close>

definition hextets_to_int :: "string list \<Rightarrow> error + int" where
  "hextets_to_int parts =
     (if length parts > 9 then Inl AddressValueError
      else
        (let n = length parts;
             skips = filter (\<lambda>i. parts ! i = []) [1..<n - 1]
         in if length skips > 1 then Inl AddressValueError
            else
              (case
                 (case skips of
                    skip_index # _ \<Rightarrow>
                      (let parts_hi = (if parts ! 0 = [] then skip_index - 1 else skip_index);
                           parts_lo = (if last parts = [] then n - skip_index - 1 - 1
                                       else n - skip_index - 1)
                       in if parts ! 0 = [] \<and> parts_hi \<noteq> 0 then Inl AddressValueError
                          else if last parts = [] \<and> parts_lo \<noteq> 0 then Inl AddressValueError
                          else if 8 - int (parts_hi + parts_lo) < 1 then Inl AddressValueError
                          else Inr (parts_hi, parts_lo, 8 - (parts_hi + parts_lo)))
                  | [] \<Rightarrow>
                      (if n \<noteq> 8 then Inl AddressValueError
                       else if parts ! 0 = [] then Inl AddressValueError
                       else if last parts = [] then Inl AddressValueError
                       else Inr (n, 0, 0)))
               of
                 Inl e \<Rightarrow> Inl e
               | Inr (parts_hi, parts_lo, parts_skipped) \<Rightarrow>
                   (case map_result parse_hextet (take parts_hi parts) of
                      Inl e \<Rightarrow> (if is_ValueError e then Inl AddressValueError else Inl e)
                    | Inr his \<Rightarrow>
                        (case map_result parse_hextet (drop (n - parts_lo) parts) of
                           Inl e \<Rightarrow> (if is_ValueError e then Inl AddressValueError else Inl e)
                         | Inr los \<Rightarrow>
                             Inr (foldl (\<lambda>ip h. push_bit 16 ip OR h)
                                    (push_bit (16 * parts_skipped)
                                       (foldl (\<lambda>ip h. push_bit 16 ip OR h) 0 his))
                                    los))))))"

text \<open>
  \<open>_BaseV6._ip_int_from_string\<close>: an address ending in dotted IPv4 form has that part
  replaced by its two hextets first.
\<close>

definition ip_int_from_string_v6 :: "string \<Rightarrow> error + int" where
  "ip_int_from_string_v6 ip_str =
     (if ip_str = [] then Inl AddressValueError
      else
        (let parts = split_on CHR '':'' ip_str in
         if length parts < 3 then Inl AddressValueError
         else if CHR ''.'' \<in> set (last parts) then
           (case IPv4Address (last parts) of
              Inl e \<Rightarrow> Inl e
            | Inr ipv4_int \<Rightarrow>
                hextets_to_int
                  (butlast parts @
                     [hex_str (nat (drop_bit 16 ipv4_int AND 65535)),
                      hex_str (nat (ipv4_int AND 65535))]))
         else hextets_to_int parts))"

text \<open>\<open>_split_scope_id\<close>: \<open>ip_str.partition('%')\<close> and its checks.\<close>

definition split_scope_id :: "string \<Rightarrow> error + string \<times> string option" where
  "split_scope_id ip_str =
     (let addr = takeWhile (\<lambda>c. c \<noteq> CHR ''%'') ip_str;
          rest = dropWhile (\<lambda>c. c \<noteq> CHR ''%'') ip_str
      in if rest = [] then Inr (addr, None)
         else if tl rest = [] \<or> CHR ''%'' \<in> set (tl rest) then Inl AddressValueError
         else Inr (addr, Some (tl rest)))"

text \<open>\<open>IPv6Address(address)\<close> on a string.\<close>

definition IPv6Address :: "string \<Rightarrow> error + int" where
  "IPv6Address addr_str =
     (if CHR ''/'' \<in> set addr_str then Inl AddressValueError
      else
        (case split_scope_id addr_str of
           Inl e \<Rightarrow> Inl e
         | Inr (addr, scope_id) \<Rightarrow> ip_int_from_string_v6 addr))"

text \<open>\<open>_BaseV6._make_netmask\<close>: a string is a prefix length in decimal, nothing else.\<close>

definition make_netmask_v6 :: "mask_arg \<Rightarrow> error + int \<times> nat" where
  "make_netmask_v6 arg =
     (case
        (case arg of
           MaskInt prefixlen \<Rightarrow>
             (if \<not> (0 \<le> prefixlen \<and> prefixlen \<le> 128) then Inl NetmaskValueError
              else Inr (nat prefixlen))
         | MaskStr s \<Rightarrow> prefix_from_prefix_string 128 s)
      of
        Inl e \<Rightarrow> Inl e
      | Inr prefixlen \<Rightarrow> Inr (ip_int_from_prefix 128 prefixlen, prefixlen))"

text \<open>\<open>IPv6Network(address)\<close> with the default \<open>strict=True\<close>.\<close>

definition IPv6Network :: "string \<Rightarrow> error + int \<times> nat" where
  "IPv6Network address =
     (case split_addr_prefix 128 address of
        Inl e \<Rightarrow> Inl e
      | Inr (addr, mask') \<Rightarrow>
          (case IPv6Address addr of
             Inl e \<Rightarrow> Inl e
           | Inr packed \<Rightarrow>
               (case make_netmask_v6 mask' of
                  Inl e \<Rightarrow> Inl e
                | Inr (netmask, prefixlen) \<Rightarrow>
                    (if packed AND netmask \<noteq> packed then Inl ValueError
                     else Inr (packed, prefixlen)))))"

subsection \<open>\<open>validate_target\<close>\<close>

text \<open>
  \<^verbatim>\<open>def validate_target(target):
      if '/' not in target:  # Not a prefix
          return False
      if ':' in target:  # We assume IPv6 here and IPv4 otherwise
          try:
              IPv6Network(target)
          except ValueError:
              return False
      else:
          try:
              IPv4Network(target)
          except ValueError:
              return False
      return True\<close>
  An exception that is not a \<open>ValueError\<close> would leave the function.
\<close>

definition validate_target :: "string \<Rightarrow> error + bool" where
  "validate_target target =
     (if CHR ''/'' \<notin> set target then Inr False
      else if CHR '':'' \<in> set target then
        (case IPv6Network target of
           Inl e \<Rightarrow> (if is_ValueError e then Inr False else Inl e)
         | Inr _ \<Rightarrow> Inr True)
      else
        (case IPv4Network target of
           Inl e \<Rightarrow> (if is_ValueError e then Inr False else Inl e)
         | Inr _ \<Rightarrow> Inr True))"

section \<open>The script's main part\<close>

text \<open>
  What a run reads from outside: the script's file name, the three readings of the clock
  in the order the run takes them (\<open>datetime.now()\<close> for the "now" timestamp,
  \<open>date.today()\<close> and \<open>datetime.now()\<close> inside the lookback), the HTTP transport, and what
  the installed numpy does with arrays that are not 64-bit integer arrays.
\<close>

record 'j environment =
  env_script :: string
  env_now_main :: datetime
  env_today :: date
  env_now_lookup :: datetime
  env_http :: "string \<Rightarrow> error + 'j response"
  env_numpy_wide :: "int list \<Rightarrow> int list \<Rightarrow> bool"

text \<open>
  What a run does that can be seen from outside, in order: the help text on standard
  error, a GET request for a URL, a line on standard output; and how it ends:
  \<open>sys.exit(code)\<close>, or an exception nobody catches.
\<close>

datatype event = PrintHelpStderr | HttpGet string | PrintStdout string

datatype outcome = Exit int | Uncaught error

text \<open>
  The part under \<open>if __name__ == '__main__'\<close>, from the parsed arguments on: \<open>n\<close> is
  \<open>args[0].n\<close> (the value of \<open>-n\<close>, or \<open>RIPE_RIS_DEFAULT_N_DUMPS_BACK\<close> when the option is
  absent) and \<open>target\<close> is \<open>args[0].target\<close>.
  \<^verbatim>\<open>if not validate_target(args[0].target):
      parser.print_help(sys.stderr)
      sys.exit(1)
  now = ris_format_timestamp(datetime.now())
  then = ris_format_timestamp(ris_get_last_dump_datetime())
  then_res = ris_get_bgp_state(args[0].target, then)
  now_res = ris_get_bgp_state(args[0].target, now)
  ris_compare_aspaths(then_res, now_res)
  sys.exit(0)\<close>
\<close>

definition main :: "int \<Rightarrow> string \<Rightarrow> 'sid body environment \<Rightarrow> event list \<times> outcome" where
  "main n target env =
     (case validate_target target of
        Inl e \<Rightarrow> ([], Uncaught e)
      | Inr valid \<Rightarrow>
          if \<not> valid then ([PrintHelpStderr], Exit 1)
          else
            (let now_ts = ris_format_timestamp (env_now_main env) in
             case ris_get_last_dump_datetime (env_today env) (env_now_lookup env) n of
               Inl e \<Rightarrow> ([], Uncaught e)
             | Inr then_dt \<Rightarrow>
                 (let then_ts = ris_format_timestamp then_dt;
                      then_get = HttpGet (bgp_state_url (env_script env) target then_ts);
                      now_get = HttpGet (bgp_state_url (env_script env) target now_ts)
                  in case ris_get_bgp_state (env_script env) (env_http env) target then_ts of
                       Inl e \<Rightarrow> ([then_get], Uncaught e)
                     | Inr then_res \<Rightarrow>
                         (case ris_get_bgp_state (env_script env) (env_http env) target now_ts of
                            Inl e \<Rightarrow> ([then_get, now_get], Uncaught e)
                          | Inr now_res \<Rightarrow>
                              (case ris_compare_aspaths (env_numpy_wide env) then_res now_res of
                                 Inl e \<Rightarrow> ([then_get, now_get], Uncaught e)
                               | Inr out \<Rightarrow>
                                   ([then_get, now_get] @ map (\<lambda>(sid, l). PrintStdout l) out,
                                    Exit 0))))))"

section \<open>Properties of the comparator\<close>

lemma as_number_fits_int64: "as_number x \<Longrightarrow> fits_int64 x"
  by (simp add: as_number_def fits_int64_def)

lemma as_path_fits_int64: "list_all as_number a \<Longrightarrow> list_all fits_int64 a"
  by (induction a) (simp_all add: as_number_fits_int64)

lemma zip_all_equal:
  "length a = length b \<Longrightarrow> list_all (\<lambda>(x, y). x = y) (zip a b) \<longleftrightarrow> a = b"
  by (induction a b rule: list_induct2) simp_all

lemma lists_equal_int64:
  assumes "list_all fits_int64 a" and "list_all fits_int64 b"
  shows "lists_equal numpy_wide a b \<longleftrightarrow> a = b"
proof (cases "length a = length b")
  case True
  with assms show ?thesis by (simp add: lists_equal_def zip_all_equal)
next
  case False
  then have "a \<noteq> b" by auto
  with False show ?thesis by (simp add: lists_equal_def)
qed

text \<open>
  Outside the 64-bit range the outcome is numpy's, whatever it is: on \<open>[0, 2^63]\<close> and
  \<open>[0, 2^63 + 1]\<close>, which some versions of numpy turn into floating-point arrays that
  compare equal, the model claims nothing.
\<close>

lemma lists_equal_wide_example:
  "lists_equal numpy_wide [0, 9223372036854775808] [0, 9223372036854775809]
     = numpy_wide [0, 9223372036854775808] [0, 9223372036854775809]"
  by (simp add: lists_equal_def fits_int64_def)

lemma lists_equal_length: "length a \<noteq> length b \<Longrightarrow> \<not> lists_equal numpy_wide a b"
  by (simp add: lists_equal_def)

lemma dict_set_keys: "fst ` set (dict_set d k v) = insert k (fst ` set d)"
  by (induction d) force+

lemma dict_set_distinct: "distinct (map fst d) \<Longrightarrow> distinct (map fst (dict_set d k v))"
proof (induction d)
  case Nil
  show ?case by simp
next
  case (Cons kv d)
  obtain k' v' where kv: "kv = (k', v')" by (cases kv)
  from Cons have "distinct (map fst (dict_set d k v))" by simp
  moreover have "set (map fst (dict_set d k v)) = insert k (set (map fst d))"
    using dict_set_keys [of d k v] by simp
  ultimately show ?case using Cons.prems kv by auto
qed

lemma foldl_dict_set_distinct:
  "distinct (map fst d) \<Longrightarrow>
   distinct (map fst (foldl (\<lambda>d b. dict_set d (source_id b) (path b)) d bs))"
  by (induction bs arbitrary: d) (simp_all add: dict_set_distinct)

lemma foldl_dict_set_keys:
  "fst ` set (foldl (\<lambda>d b. dict_set d (source_id b) (path b)) d bs)
     = fst ` set d \<union> source_id ` set bs"
  by (induction bs arbitrary: d) (auto simp: dict_set_keys)

lemma collect_paths_distinct: "distinct (map fst (collect_paths bs))"
  unfolding collect_paths_def by (rule foldl_dict_set_distinct) simp

lemma collect_paths_keys: "fst ` set (collect_paths bs) = source_id ` set bs"
  unfolding collect_paths_def using foldl_dict_set_keys [of "[]" bs] by simp

lemma compare_loop_sources:
  "sid \<in> fst ` set (compare_loop numpy_wide d nd) \<longleftrightarrow>
     (\<exists>p q. (sid, p) \<in> set d \<and> map_of nd sid = Some q \<and> \<not> lists_equal numpy_wide p q)"
proof (induction d)
  case Nil
  show ?case by simp
next
  case (Cons kv d)
  obtain k p where kv: "kv = (k, p)" by (cases kv)
  show ?case
    unfolding kv using Cons.IH
    by (auto split: option.splits)
qed

lemma compare_loop_lines:
  "(sid, l) \<in> set (compare_loop numpy_wide d nd) \<longleftrightarrow>
     (\<exists>p q. (sid, p) \<in> set d \<and> map_of nd sid = Some q \<and> \<not> lists_equal numpy_wide p q
        \<and> l = format_line p q)"
proof (induction d)
  case Nil
  show ?case by simp
next
  case (Cons kv d)
  obtain k p where kv: "kv = (k, p)" by (cases kv)
  show ?case
    unfolding kv using Cons.IH
    by (auto split: option.splits)
qed

lemma map_of_dict_set: "map_of (dict_set d k v) = (map_of d)(k \<mapsto> v)"
  by (induction d) (auto simp: fun_eq_iff)

lemma map_of_distinct_mem: "distinct (map fst d) \<Longrightarrow> (k, v) \<in> set d \<longleftrightarrow> map_of d k = Some v"
  by (auto dest: map_of_SomeD)

lemma find_append:
  "find P (xs @ ys) = (case find P xs of None \<Rightarrow> find P ys | Some x \<Rightarrow> Some x)"
  by (induction xs) auto

text \<open>
  What \<open>then_paths[sid]\<close> holds after the loop: the path of the last record with that
  source-id, a later record overwriting an earlier one.
\<close>

lemma map_of_foldl_dict_set:
  "map_of (foldl (\<lambda>d b. dict_set d (source_id b) (path b)) d bs) sid =
     (case find (\<lambda>b. source_id b = sid) (rev bs) of
        None \<Rightarrow> map_of d sid
      | Some b \<Rightarrow> Some (path b))"
proof (induction bs arbitrary: d)
  case Nil
  show ?case by simp
next
  case (Cons b bs)
  show ?case
    by (simp add: Cons.IH map_of_dict_set find_append split: option.splits)
qed

lemma map_of_collect_paths:
  "map_of (collect_paths bs) sid = map_option path (find (\<lambda>b. source_id b = sid) (rev bs))"
  unfolding collect_paths_def
  by (simp add: map_of_foldl_dict_set split: option.splits)

lemma collect_paths_dom:
  "map_of (collect_paths bs) sid \<noteq> None \<longleftrightarrow> sid \<in> source_id ` set bs"
  using collect_paths_keys [of bs] by (metis map_of_eq_None_iff)

text \<open>
  C4. For two AS-path sequences \<open>a\<close> and \<open>b\<close> (every element an AS number, a 32-bit value):
  \<open>lists_equal\<close> holds exactly when the two sequences are equal element by element, in
  order. Equal length and equal elements at every position: no difference; equal length
  and some position that differs: a difference. Different lengths give a difference
  whatever the contents, AS numbers or not. For a source-id present in both snapshots, with
  path \<open>a\<close> in "then" and path \<open>b\<close> in "now", the comparator prints a line for that source-id
  exactly when the paths differ, and the line shows the two paths. None of this depends on
  what numpy does with arrays that are not 64-bit integer arrays.
\<close>

theorem lists_equal_elementwise:
  "(list_all as_number a \<and> list_all as_number b \<longrightarrow>
      (length a = length b \<and> (\<forall>i<length a. a ! i = b ! i) \<longrightarrow> lists_equal numpy_wide a b)
      \<and> (length a = length b \<and> (\<exists>i<length a. a ! i \<noteq> b ! i) \<longrightarrow>
            \<not> lists_equal numpy_wide a b)
      \<and> (lists_equal numpy_wide a b \<longleftrightarrow> a = b)
      \<and> (map_of (collect_paths then_body) sid = Some a
           \<and> map_of (collect_paths now_body) sid = Some b \<longrightarrow>
         (\<exists>out. ris_compare_aspaths numpy_wide (Some then_body) (Some now_body) = Inr out
            \<and> (sid \<in> fst ` set out \<longleftrightarrow> \<not> lists_equal numpy_wide a b)
            \<and> (\<forall>l. (sid, l) \<in> set out \<longleftrightarrow>
                  \<not> lists_equal numpy_wide a b \<and> l = format_line a b))))
   \<and> (length a \<noteq> length b \<longrightarrow> \<not> lists_equal numpy_wide a b)"
proof (intro conjI impI)
  assume "length a \<noteq> length b"
  then show "\<not> lists_equal numpy_wide a b" by (rule lists_equal_length)
next
  assume "list_all as_number a \<and> list_all as_number b"
  then have eq: "lists_equal numpy_wide a b \<longleftrightarrow> a = b"
    by (intro lists_equal_int64 as_path_fits_int64) simp_all
  show "lists_equal numpy_wide a b \<longleftrightarrow> a = b" by (fact eq)
  {
    assume "length a = length b \<and> (\<forall>i<length a. a ! i = b ! i)"
    then have "a = b" by (simp add: list_eq_iff_nth_eq)
    then show "lists_equal numpy_wide a b" by (rule iffD2 [OF eq])
  }
  {
    assume "length a = length b \<and> (\<exists>i<length a. a ! i \<noteq> b ! i)"
    then have "a \<noteq> b" by auto
    with eq show "\<not> lists_equal numpy_wide a b" by blast
  }
  {
    assume tn: "map_of (collect_paths then_body) sid = Some a
        \<and> map_of (collect_paths now_body) sid = Some b"
    let ?d = "collect_paths then_body" and ?nd = "collect_paths now_body"
    from tn have t: "map_of ?d sid = Some a" and n: "map_of ?nd sid = Some b" by simp_all
    have mem: "(sid, p) \<in> set ?d \<longleftrightarrow> p = a" for p
      using map_of_distinct_mem [OF collect_paths_distinct, of sid p then_body] t by auto
    have 1: "sid \<in> fst ` set (compare_loop numpy_wide ?d ?nd) \<longleftrightarrow>
        \<not> lists_equal numpy_wide a b"
      unfolding compare_loop_sources using mem n by simp
    have 2: "(sid, l) \<in> set (compare_loop numpy_wide ?d ?nd) \<longleftrightarrow>
        \<not> lists_equal numpy_wide a b \<and> l = format_line a b" for l
      unfolding compare_loop_lines using mem n by auto
    have run: "ris_compare_aspaths numpy_wide (Some then_body) (Some now_body)
        = Inr (compare_loop numpy_wide ?d ?nd)"
      by (simp add: ris_compare_aspaths_def)
    show "\<exists>out. ris_compare_aspaths numpy_wide (Some then_body) (Some now_body) = Inr out
         \<and> (sid \<in> fst ` set out \<longleftrightarrow> \<not> lists_equal numpy_wide a b)
         \<and> (\<forall>l. (sid, l) \<in> set out \<longleftrightarrow> \<not> lists_equal numpy_wide a b \<and> l = format_line a b)"
      by (rule exI [of _ "compare_loop numpy_wide ?d ?nd"]) (use run 1 2 in blast)
  }
qed

theorem lists_equal_elementwise_witness:
  "list_all as_number [100, 200, 300] \<and> list_all as_number [100, 250, 300]
   \<and> list_all as_number [100, 200]
   \<and> lists_equal (\<lambda>a b. False) [100, 200, 300] [100, 200, 300]
   \<and> \<not> lists_equal (\<lambda>a b. True) [100, 200, 300] [100, 250, 300]
   \<and> \<not> lists_equal (\<lambda>a b. True) [100, 200] [100, 200, 300]
   \<and> (\<exists>out. ris_compare_aspaths (\<lambda>a b. True)
                (Some [\<lparr>source_id = 1 :: nat, path = [100, 200, 300]\<rparr>])
                (Some [\<lparr>source_id = 1 :: nat, path = [100, 250, 300]\<rparr>]) = Inr out
          \<and> 1 \<in> fst ` set out
          \<and> (1, format_line [100, 200, 300] [100, 250, 300]) \<in> set out)"
proof -
  have p1: "list_all as_number [100, 200, 300]" by (simp add: as_number_def)
  have p2: "list_all as_number [100, 250, 300]" by (simp add: as_number_def)
  have p3: "list_all as_number [100, 200]" by (simp add: as_number_def)
  have same: "lists_equal (\<lambda>a b. False) [100, 200, 300] [100, 200, 300]"
    using lists_equal_elementwise
      [of "[100, 200, 300]" "[100, 200, 300]" "\<lambda>a b. False" "[] :: nat body" 0 "[]"] p1
    by simp
  have "\<exists>i<length [100, 200, 300 :: int]. [100, 200, 300 :: int] ! i \<noteq> [100, 250, 300] ! i"
    by (rule exI [of _ 1]) simp
  then have differ: "\<not> lists_equal (\<lambda>a b. True) [100, 200, 300] [100, 250, 300]"
    using lists_equal_elementwise
      [of "[100, 200, 300]" "[100, 250, 300]" "\<lambda>a b. True" "[] :: nat body" 0 "[]"] p1 p2
    by simp
  have shorter: "\<not> lists_equal (\<lambda>a b. True) [100, 200] [100, 200, 300]"
    using lists_equal_elementwise
      [of "[100, 200]" "[100, 200, 300]" "\<lambda>a b. True" "[] :: nat body" 0 "[]"]
    by simp
  let ?t = "[\<lparr>source_id = 1 :: nat, path = [100, 200, 300]\<rparr>]"
  let ?n = "[\<lparr>source_id = 1 :: nat, path = [100, 250, 300]\<rparr>]"
  have t: "map_of (collect_paths ?t) 1 = Some [100, 200, 300]"
    by (simp add: collect_paths_def)
  have n: "map_of (collect_paths ?n) 1 = Some [100, 250, 300]"
    by (simp add: collect_paths_def)
  have "\<exists>out. ris_compare_aspaths (\<lambda>a b. True) (Some ?t) (Some ?n) = Inr out
          \<and> 1 \<in> fst ` set out
          \<and> (1, format_line [100, 200, 300] [100, 250, 300]) \<in> set out"
    using lists_equal_elementwise
      [of "[100, 200, 300]" "[100, 250, 300]" "\<lambda>a b. True" ?t 1 ?n] p1 p2 t n differ
    by auto
  with p1 p2 p3 same differ shorter show ?thesis by blast
qed

text \<open>
  C8. A source-id that occurs in only one of the two snapshots (only in "then" or only in
  "now") gets no output line: no iteration of the comparator prints for it.
\<close>

theorem absent_source_not_reported:
  assumes "sid \<notin> source_id ` set then_body \<or> sid \<notin> source_id ` set now_body"
  shows "\<exists>out. ris_compare_aspaths numpy_wide (Some then_body) (Some now_body) = Inr out
           \<and> sid \<notin> fst ` set out"
proof -
  let ?d = "collect_paths then_body" and ?nd = "collect_paths now_body"
  have "sid \<notin> fst ` set (compare_loop numpy_wide ?d ?nd)"
  proof
    assume "sid \<in> fst ` set (compare_loop numpy_wide ?d ?nd)"
    then obtain p q where p: "(sid, p) \<in> set ?d" and q: "map_of ?nd sid = Some q"
      unfolding compare_loop_sources by blast
    from p have "sid \<in> fst ` set ?d" by force
    then have "sid \<in> source_id ` set then_body" by (simp add: collect_paths_keys)
    moreover from q have "sid \<in> source_id ` set now_body"
      using collect_paths_dom [of now_body sid] by simp
    ultimately show False using assms by blast
  qed
  then show ?thesis by (simp add: ris_compare_aspaths_def)
qed

theorem absent_source_not_reported_witness:
  "ris_compare_aspaths (\<lambda>a b. True)
      (Some [\<lparr>source_id = 1 :: nat, path = [100, 200, 300]\<rparr>, \<lparr>source_id = 2, path = [100, 400]\<rparr>])
      (Some [\<lparr>source_id = 1 :: nat, path = [100, 250, 300]\<rparr>, \<lparr>source_id = 3, path = [100, 500]\<rparr>])
     = Inr [(1, format_line [100, 200, 300] [100, 250, 300])]
   \<and> (\<exists>out. ris_compare_aspaths (\<lambda>a b. True)
        (Some [\<lparr>source_id = 1 :: nat, path = [100, 200, 300]\<rparr>, \<lparr>source_id = 2, path = [100, 400]\<rparr>])
        (Some [\<lparr>source_id = 1 :: nat, path = [100, 250, 300]\<rparr>, \<lparr>source_id = 3, path = [100, 500]\<rparr>])
          = Inr out \<and> 2 \<notin> fst ` set out \<and> 3 \<notin> fst ` set out)"
proof -
  let ?t = "[\<lparr>source_id = 1 :: nat, path = [100, 200, 300]\<rparr>, \<lparr>source_id = 2, path = [100, 400]\<rparr>]"
  let ?n = "[\<lparr>source_id = 1 :: nat, path = [100, 250, 300]\<rparr>, \<lparr>source_id = 3, path = [100, 500]\<rparr>]"
  have run: "ris_compare_aspaths (\<lambda>a b. True) (Some ?t) (Some ?n)
      = Inr [(1, format_line [100, 200, 300] [100, 250, 300])]"
    by (simp add: ris_compare_aspaths_def collect_paths_def lists_equal_def fits_int64_def)
  have "2 \<notin> source_id ` set ?t \<or> 2 \<notin> source_id ` set ?n" by simp
  from absent_source_not_reported [OF this]
  have two: "\<exists>out. ris_compare_aspaths (\<lambda>a b. True) (Some ?t) (Some ?n) = Inr out
      \<and> 2 \<notin> fst ` set out" .
  have "3 \<notin> source_id ` set ?t \<or> 3 \<notin> source_id ` set ?n" by simp
  from absent_source_not_reported [OF this]
  have three: "\<exists>out. ris_compare_aspaths (\<lambda>a b. True) (Some ?t) (Some ?n) = Inr out
      \<and> 3 \<notin> fst ` set out" .
  from run two three show ?thesis by auto
qed

section \<open>Properties of the client\<close>

text \<open>
  C7, as the code has it. \<open>RIPEstat.get\<close> asks the inherited \<open>APIClient.get\<close> for the URL.
  When that call raises (no response, or a client library that turns an error status such
  as 404 into an exception), \<open>RIPEstat.get\<close> raises the same exception. When it returns a
  response object: with any status other than 200 (the only code in \<open>VALID_RESP_CODE\<close>)
  \<open>RIPEstat.get\<close> returns \<open>None\<close>, without raising and without decoding the body; with
  status 200 it returns what \<open>res.json()\<close> yields, the decoded body when the body is JSON,
  and otherwise the decoder's exception leaves \<open>get\<close>. A body comes back only when the
  status is 200.
\<close>

theorem RIPEstat_get_by_status:
  "(http (RIPEstat_url self datacall (RIPEstat_querystring self ''get'' params)) = Inl e \<longrightarrow>
      RIPEstat_get self http datacall params = Inl e)
   \<and> (http (RIPEstat_url self datacall (RIPEstat_querystring self ''get'' params)) = Inr res \<longrightarrow>
        (status_code res \<noteq> 200 \<longrightarrow> RIPEstat_get self http datacall params = Inr None)
        \<and> (status_code res = 200 \<and> json res = Inr j \<longrightarrow>
              RIPEstat_get self http datacall params = Inr (Some j))
        \<and> (status_code res = 200 \<and> json res = Inl e \<longrightarrow>
              RIPEstat_get self http datacall params = Inl e)
        \<and> (RIPEstat_get self http datacall params = Inr (Some j) \<longrightarrow>
              status_code res = 200 \<and> json res = Inr j))"
  by (auto simp: RIPEstat_get_def RIPEstat_response_def VALID_RESP_CODE_def
      split: sum.splits if_splits)

theorem RIPEstat_get_by_status_witness:
  "RIPEstat_get (RIPEstat_init ''compare-aspaths.py'' (Some RIPE_STAT_BASE_URL))
      (\<lambda>url. Inr \<lparr>status_code = 200, json = Inr (7 :: nat)\<rparr>) ''bgp-state'' None = Inr (Some 7)
   \<and> RIPEstat_get (RIPEstat_init ''compare-aspaths.py'' (Some RIPE_STAT_BASE_URL))
      (\<lambda>url. Inr \<lparr>status_code = 204, json = Inl JSONDecodeError\<rparr>) ''bgp-state'' None
        = (Inr None :: error + nat option)
   \<and> RIPEstat_get (RIPEstat_init ''compare-aspaths.py'' (Some RIPE_STAT_BASE_URL))
      (\<lambda>url. Inr \<lparr>status_code = 200, json = Inl JSONDecodeError\<rparr>) ''bgp-state'' None
        = (Inl JSONDecodeError :: error + nat option)
   \<and> RIPEstat_get (RIPEstat_init ''compare-aspaths.py'' (Some RIPE_STAT_BASE_URL))
      (\<lambda>url. Inl TransportError) ''bgp-state'' None
        = (Inl TransportError :: error + nat option)"
proof -
  let ?c = "RIPEstat_init ''compare-aspaths.py'' (Some RIPE_STAT_BASE_URL)"
  let ?ok = "\<lparr>status_code = 200, json = Inr (7 :: nat)\<rparr>"
  let ?ko = "\<lparr>status_code = 204, json = Inl JSONDecodeError :: error + nat\<rparr>"
  let ?bad = "\<lparr>status_code = 200, json = Inl JSONDecodeError :: error + nat\<rparr>"
  have a: "RIPEstat_get ?c (\<lambda>url. Inr ?ok) ''bgp-state'' None = Inr (Some 7)"
    using RIPEstat_get_by_status
      [of "\<lambda>url. Inr ?ok" ?c "''bgp-state''" None JSONDecodeError ?ok 7]
    by simp
  have b: "RIPEstat_get ?c (\<lambda>url. Inr ?ko) ''bgp-state'' None = Inr None"
    using RIPEstat_get_by_status
      [of "\<lambda>url. Inr ?ko" ?c "''bgp-state''" None JSONDecodeError ?ko 7]
    by simp
  have c: "RIPEstat_get ?c (\<lambda>url. Inr ?bad) ''bgp-state'' None = Inl JSONDecodeError"
    using RIPEstat_get_by_status
      [of "\<lambda>url. Inr ?bad" ?c "''bgp-state''" None JSONDecodeError ?bad 7]
    by simp
  have d: "RIPEstat_get ?c (\<lambda>url. Inl TransportError) ''bgp-state'' None
      = (Inl TransportError :: error + nat option)"
    using RIPEstat_get_by_status
      [of "\<lambda>url. Inl TransportError :: error + nat response" ?c "''bgp-state''" None
          TransportError ?ok 7]
    by simp
  from a b c d show ?thesis by blast
qed

text \<open>
  C7 as stated fails: a response with status 200 whose body is not JSON makes \<open>get\<close>
  raise.
\<close>

theorem RIPEstat_get_raises_on_undecodable_body:
  "RIPEstat_get (RIPEstat_init ''compare-aspaths.py'' (Some RIPE_STAT_BASE_URL))
      (\<lambda>url. Inr \<lparr>status_code = 200, json = Inl JSONDecodeError\<rparr>) ''bgp-state''
      (Some [(''resource'', ''193.0.14.0/24''), (''timestamp'', ''2026-11-04T10:37'')])
     = (Inl JSONDecodeError :: error + nat body option)"
  by (simp add: RIPEstat_get_def RIPEstat_response_def VALID_RESP_CODE_def)

section \<open>Properties of the timestamp resolution\<close>

lemma bisect_loop_spec:
  assumes "sorted a" and "lo \<le> hi" and "hi \<le> length a"
    and "\<forall>j<lo. a ! j \<le> x" and "\<forall>j. hi \<le> j \<and> j < length a \<longrightarrow> x < a ! j"
  shows "lo \<le> bisect_loop a x lo hi \<and> bisect_loop a x lo hi \<le> hi
       \<and> (\<forall>j<bisect_loop a x lo hi. a ! j \<le> x)
       \<and> (\<forall>j. bisect_loop a x lo hi \<le> j \<and> j < length a \<longrightarrow> x < a ! j)"
  using assms
proof (induction a x lo hi rule: bisect_loop.induct)
  case (1 a x lo hi)
  show ?case
  proof (cases "lo < hi")
    case False
    then have "bisect_loop a x lo hi = lo" by (subst bisect_loop.simps) simp
    with False "1.prems" show ?thesis by simp
  next
    case True
    define mid where "mid = (lo + hi) div 2"
    from True have mid: "lo \<le> mid" "mid < hi" by (simp_all add: mid_def)
    show ?thesis
    proof (cases "x < a ! mid")
      case lt: True
      have up: "\<forall>j. mid \<le> j \<and> j < length a \<longrightarrow> x < a ! j"
      proof (intro allI impI)
        fix j assume j: "mid \<le> j \<and> j < length a"
        with \<open>sorted a\<close> have "a ! mid \<le> a ! j" by (simp add: sorted_nth_mono)
        with lt show "x < a ! j" by simp
      qed
      have eq: "bisect_loop a x lo hi = bisect_loop a x lo mid"
        using True lt by (simp add: bisect_loop.simps [of a x lo hi] mid_def Let_def)
      have "lo \<le> bisect_loop a x lo mid \<and> bisect_loop a x lo mid \<le> mid
       \<and> (\<forall>j<bisect_loop a x lo mid. a ! j \<le> x)
       \<and> (\<forall>j. bisect_loop a x lo mid \<le> j \<and> j < length a \<longrightarrow> x < a ! j)"
        using "1.IH"(1) [OF True mid_def lt] "1.prems" mid up by simp
      with eq mid show ?thesis by simp
    next
      case ge: False
      have low: "\<forall>j<mid + 1. a ! j \<le> x"
      proof (intro allI impI)
        fix j assume j: "j < mid + 1"
        from mid "1.prems" have "mid < length a" by simp
        with j \<open>sorted a\<close> have "a ! j \<le> a ! mid" by (simp add: sorted_nth_mono)
        with ge show "a ! j \<le> x" by simp
      qed
      have eq: "bisect_loop a x lo hi = bisect_loop a x (mid + 1) hi"
        using True ge by (simp add: bisect_loop.simps [of a x lo hi] mid_def Let_def)
      have "mid + 1 \<le> bisect_loop a x (mid + 1) hi \<and> bisect_loop a x (mid + 1) hi \<le> hi
       \<and> (\<forall>j<bisect_loop a x (mid + 1) hi. a ! j \<le> x)
       \<and> (\<forall>j. bisect_loop a x (mid + 1) hi \<le> j \<and> j < length a \<longrightarrow> x < a ! j)"
        using "1.IH"(2) [OF True mid_def ge] "1.prems" mid low by simp
      with eq mid show ?thesis by simp
    qed
  qed
qed

lemma bisect_spec:
  assumes "sorted a"
  shows "bisect a x \<le> length a \<and> (\<forall>j<bisect a x. a ! j \<le> x)
       \<and> (\<forall>j. bisect a x \<le> j \<and> j < length a \<longrightarrow> x < a ! j)"
  unfolding bisect_def using bisect_loop_spec [OF assms, of 0 "length a" x] by simp


lemma takeWhile_prefix:
  assumes "k \<le> length xs" and "\<forall>i<k. P (xs ! i)"
  shows "k \<le> length (takeWhile P xs)"
proof (rule ccontr)
  assume "\<not> k \<le> length (takeWhile P xs)"
  then have lt: "length (takeWhile P xs) < k" by simp
  with assms(1) have "length (takeWhile P xs) < length xs" by simp
  then have "\<not> P (xs ! length (takeWhile P xs))" by (rule nth_length_takeWhile)
  with assms(2) lt show False by simp
qed

lemma rrule_hourly_nth:
  assumes "i < length (rrule_hourly interval d c)"
  shows "rrule_hourly interval d c ! i = midnight d + int i * (interval * US_PER_HOUR)"
    and "i < nat c"
proof -
  let ?xs = "map (\<lambda>i. midnight d + int i * (interval * US_PER_HOUR)) [0..<nat c]"
  have len: "length (takeWhile valid_datetime ?xs) \<le> length ?xs"
    by (rule length_takeWhile_le)
  with assms show "i < nat c" by (simp add: rrule_hourly_def)
  then show "rrule_hourly interval d c ! i = midnight d + int i * (interval * US_PER_HOUR)"
    using assms by (simp add: rrule_hourly_def takeWhile_nth)
qed

lemma rrule_hourly_prefix:
  assumes "k \<le> nat c"
    and "\<forall>i<k. valid_datetime (midnight d + int i * (interval * US_PER_HOUR))"
  shows "k \<le> length (rrule_hourly interval d c)"
  unfolding rrule_hourly_def
  by (rule takeWhile_prefix) (use assms in simp_all)

lemma rrule_hourly_full:
  assumes "\<forall>i<nat c. valid_datetime (midnight d + int i * (interval * US_PER_HOUR))"
  shows "rrule_hourly interval d c
           = map (\<lambda>i. midnight d + int i * (interval * US_PER_HOUR)) [0..<nat c]"
  unfolding rrule_hourly_def using assms by (simp add: takeWhile_eq_all_conv)

lemma rrule_hourly_strict:
  assumes "0 < interval"
  shows "sorted_wrt (<) (rrule_hourly interval d c)"
proof -
  have pos: "0 < interval * US_PER_HOUR" using assms by (simp add: US_PER_HOUR_def)
  show ?thesis
    unfolding sorted_wrt_iff_nth_less
  proof (intro allI impI)
    fix i j assume ij: "i < j" and j: "j < length (rrule_hourly interval d c)"
    then have i: "i < length (rrule_hourly interval d c)" by simp
    from ij have "int i < int j" by simp
    then have "int i * (interval * US_PER_HOUR) < int j * (interval * US_PER_HOUR)"
      using pos by (rule mult_strict_right_mono)
    then show "rrule_hourly interval d c ! i < rrule_hourly interval d c ! j"
      by (simp add: rrule_hourly_nth(1) [OF i] rrule_hourly_nth(1) [OF j])
  qed
qed

lemma rrule_hourly_sorted: "0 < interval \<Longrightarrow> sorted (rrule_hourly interval d c)"
  using rrule_hourly_strict [of interval d c] by (simp add: strict_sorted_imp_sorted)

lemma rrule_hourly_empty: "c \<le> 0 \<Longrightarrow> rrule_hourly interval d c = []"
  by (simp add: rrule_hourly_def)

text \<open>On a sorted list, the lookup \<open>a[bisect(a, x)]\<close> finds the earliest element after \<open>x\<close>,
  and fails exactly when there is none.\<close>

lemma lookup_bisect_found:
  assumes "sorted a" and "k < length a" and "x < a ! k"
  shows "\<exists>t. list_index a (bisect a x) = Inr t \<and> t \<in> set a \<and> x < t
           \<and> (\<forall>u\<in>set a. x < u \<longrightarrow> t \<le> u)"
proof -
  let ?r = "bisect a x"
  from bisect_spec [OF assms(1), of x]
  have below: "\<forall>j<?r. a ! j \<le> x"
    and above: "\<forall>j. ?r \<le> j \<and> j < length a \<longrightarrow> x < a ! j" by simp_all
  have "?r \<le> k"
  proof (rule ccontr)
    assume "\<not> ?r \<le> k"
    with below have "a ! k \<le> x" by simp
    with assms(3) show False by simp
  qed
  with assms(2) have r: "?r < length a" by simp
  with above have after: "x < a ! ?r" by simp
  have least: "a ! ?r \<le> u" if u: "u \<in> set a" and xu: "x < u" for u
  proof -
    from u obtain j where j: "j < length a" and uj: "u = a ! j" by (auto simp: in_set_conv_nth)
    have "?r \<le> j"
    proof (rule ccontr)
      assume "\<not> ?r \<le> j"
      with below have "a ! j \<le> x" by simp
      with xu uj show False by simp
    qed
    with assms(1) j show ?thesis unfolding uj by (simp add: sorted_nth_mono)
  qed
  from r after least show ?thesis by (auto simp: list_index_def)
qed

lemma lookup_bisect_none:
  assumes "sorted a" and "\<forall>u\<in>set a. u \<le> x"
  shows "list_index a (bisect a x) = Inl IndexError"
proof -
  let ?r = "bisect a x"
  from bisect_spec [OF assms(1), of x]
  have above: "\<forall>j. ?r \<le> j \<and> j < length a \<longrightarrow> x < a ! j" by simp
  have "\<not> ?r < length a"
  proof
    assume r: "?r < length a"
    with above have "x < a ! ?r" by simp
    moreover from r assms(2) have "a ! ?r \<le> x" by simp
    ultimately show False by simp
  qed
  then show ?thesis by (simp add: list_index_def)
qed


lemma day_bounds:
  "midnight (date_of now) \<le> now" "now < midnight (date_of now) + US_PER_DAY"
proof -
  have pos: "0 < US_PER_DAY" by (simp add: US_PER_DAY_def)
  have eq: "now div US_PER_DAY * US_PER_DAY + now mod US_PER_DAY = now" by simp
  have "0 \<le> now mod US_PER_DAY" and "now mod US_PER_DAY < US_PER_DAY"
    using pos by simp_all
  with eq show "midnight (date_of now) \<le> now" "now < midnight (date_of now) + US_PER_DAY"
    unfolding midnight_def date_of_def by linarith+
qed

lemma valid_same_day:
  assumes "valid_datetime now" and "0 \<le> off" and "off < US_PER_DAY"
  shows "valid_datetime (midnight (date_of now) + off)"
proof -
  have pos: "0 < US_PER_DAY" by (simp add: US_PER_DAY_def)
  from assms(1) have now: "0 \<le> now" "now < MAX_DAYS * US_PER_DAY"
    by (simp_all add: valid_datetime_def)
  have d0: "0 \<le> date_of now"
    unfolding date_of_def using now(1) pos by (simp add: pos_imp_zdiv_nonneg_iff)
  have "date_of now * US_PER_DAY < MAX_DAYS * US_PER_DAY"
    using day_bounds(1) [of now] now(2) by (simp add: midnight_def)
  then have "date_of now < MAX_DAYS"
    using pos by (simp add: mult_less_cancel_right)
  then have "date_of now + 1 \<le> MAX_DAYS" by simp
  then have "(date_of now + 1) * US_PER_DAY \<le> MAX_DAYS * US_PER_DAY"
    using pos by (simp only: mult_right_mono less_imp_le)
  moreover have "midnight (date_of now) + off < (date_of now + 1) * US_PER_DAY"
    using assms(3) by (simp add: midnight_def algebra_simps)
  moreover have "0 \<le> midnight (date_of now) + off"
    using d0 assms(2) pos by (simp add: midnight_def)
  ultimately show ?thesis by (simp add: valid_datetime_def)
qed

lemma lookback_small:
  assumes "valid_datetime now" and "valid_datetime (now - RIPE_RIS_INTERVAL * n * US_PER_HOUR)"
  shows "\<bar>n\<bar> < 3 * MAX_DAYS"
  using assms
  by (simp add: valid_datetime_def RIPE_RIS_INTERVAL_def US_PER_HOUR_def US_PER_DAY_def
      MAX_DAYS_def abs_less_iff)

lemma ris_get_dump_times_small:
  assumes "\<bar>n\<bar> < 3 * MAX_DAYS"
  shows "ris_get_dump_times today n = Inr (rrule_hourly RIPE_RIS_INTERVAL today (3 * n))"
proof -
  have "(3 * MAX_DAYS :: int) < 2 ^ 1024 - 2 ^ 970" by (simp add: MAX_DAYS_def)
  with assms have "\<bar>n\<bar> < 2 ^ 1024 - 2 ^ 970" by linarith
  then show ?thesis
    by (simp add: ris_get_dump_times_def HOURS_PER_DAY_def RIPE_RIS_INTERVAL_def)
qed

lemma timedelta_hours_small:
  assumes "\<bar>n\<bar> < 3 * MAX_DAYS"
  shows "timedelta_hours (RIPE_RIS_INTERVAL * n) = Inr (RIPE_RIS_INTERVAL * n * US_PER_HOUR)"
proof -
  from assms have "- 999999999 \<le> RIPE_RIS_INTERVAL * n div 24"
    and "RIPE_RIS_INTERVAL * n div 24 \<le> 999999999"
    unfolding RIPE_RIS_INTERVAL_def MAX_DAYS_def by linarith+
  then show ?thesis by (simp add: timedelta_hours_def)
qed

lemma last_dump_overflow:
  assumes "\<not> valid_datetime (now - RIPE_RIS_INTERVAL * n * US_PER_HOUR)"
  shows "ris_get_last_dump_datetime today now n = Inl OverflowError"
  using assms
  by (auto simp: ris_get_last_dump_datetime_def ris_get_dump_times_def timedelta_hours_def
      datetime_sub_def Let_def split: sum.splits if_splits)

lemma last_dump_lookup:
  assumes "valid_datetime now" and "valid_datetime (now - RIPE_RIS_INTERVAL * n * US_PER_HOUR)"
  shows "ris_get_last_dump_datetime today now n =
           list_index (rrule_hourly RIPE_RIS_INTERVAL today (3 * n))
             (bisect (rrule_hourly RIPE_RIS_INTERVAL today (3 * n))
                (now - RIPE_RIS_INTERVAL * n * US_PER_HOUR))"
proof -
  from lookback_small [OF assms] have small: "\<bar>n\<bar> < 3 * MAX_DAYS" .
  show ?thesis
    using assms(2)
    by (simp add: ris_get_last_dump_datetime_def ris_get_dump_times_small [OF small]
        timedelta_hours_small [OF small] datetime_sub_def)
qed

text \<open>For a positive lookback the candidates cover the target: the third candidate, today
  at 16:00, is already after it.\<close>

lemma candidates_cover:
  assumes "1 \<le> n" and "valid_datetime now" and "today = date_of now"
  shows "2 < length (rrule_hourly RIPE_RIS_INTERVAL today (3 * n))"
    and "now - RIPE_RIS_INTERVAL * n * US_PER_HOUR
           < rrule_hourly RIPE_RIS_INTERVAL today (3 * n) ! 2"
proof -
  let ?ts = "rrule_hourly RIPE_RIS_INTERVAL today (3 * n)"
  have "\<forall>i<3. valid_datetime (midnight today + int i * (RIPE_RIS_INTERVAL * US_PER_HOUR))"
  proof (intro allI impI)
    fix i :: nat assume "i < 3"
    then have "0 \<le> int i * (RIPE_RIS_INTERVAL * US_PER_HOUR)"
      and "int i * (RIPE_RIS_INTERVAL * US_PER_HOUR) < US_PER_DAY"
      by (simp_all add: RIPE_RIS_INTERVAL_def US_PER_HOUR_def US_PER_DAY_def)
    then show "valid_datetime (midnight today + int i * (RIPE_RIS_INTERVAL * US_PER_HOUR))"
      unfolding assms(3) by (rule valid_same_day [OF assms(2)])
  qed
  moreover from assms(1) have "3 \<le> nat (3 * n)" by simp
  ultimately have "3 \<le> length ?ts" by (rule rrule_hourly_prefix [rotated])
  then show len: "2 < length ?ts" by simp
  have "now < midnight today + US_PER_DAY" unfolding assms(3) by (rule day_bounds)
  moreover have "US_PER_DAY - RIPE_RIS_INTERVAL * n * US_PER_HOUR
                   \<le> 2 * (RIPE_RIS_INTERVAL * US_PER_HOUR)"
    using assms(1) by (simp add: RIPE_RIS_INTERVAL_def US_PER_HOUR_def US_PER_DAY_def)
  ultimately show "now - RIPE_RIS_INTERVAL * n * US_PER_HOUR < ?ts ! 2"
    by (simp add: rrule_hourly_nth(1) [OF len])
qed

lemma last_dump_positive:
  assumes "1 \<le> n" and "valid_datetime now" and "today = date_of now"
    and "valid_datetime (now - RIPE_RIS_INTERVAL * n * US_PER_HOUR)"
  shows "\<exists>t. ris_get_last_dump_datetime today now n = Inr t
           \<and> t \<in> set (rrule_hourly RIPE_RIS_INTERVAL today (3 * n))
           \<and> now - RIPE_RIS_INTERVAL * n * US_PER_HOUR < t
           \<and> (\<forall>u\<in>set (rrule_hourly RIPE_RIS_INTERVAL today (3 * n)).
                 now - RIPE_RIS_INTERVAL * n * US_PER_HOUR < u \<longrightarrow> t \<le> u)"
proof -
  have "sorted (rrule_hourly RIPE_RIS_INTERVAL today (3 * n))"
    by (rule rrule_hourly_sorted) (simp add: RIPE_RIS_INTERVAL_def)
  from lookup_bisect_found [OF this candidates_cover [OF assms(1-3)]]
  show ?thesis unfolding last_dump_lookup [OF assms(2,4)] .
qed

lemma last_dump_nonpositive:
  assumes "n \<le> 0" and "valid_datetime now"
    and "valid_datetime (now - RIPE_RIS_INTERVAL * n * US_PER_HOUR)"
  shows "ris_get_last_dump_datetime today now n = Inl IndexError"
proof -
  from assms(1) have "rrule_hourly RIPE_RIS_INTERVAL today (3 * n) = []"
    by (simp add: rrule_hourly_empty)
  then show ?thesis
    unfolding last_dump_lookup [OF assms(2,3)] by (simp add: list_index_def)
qed

text \<open>
  C2, as the code has it. For a positive lookback \<open>n\<close> and a current time \<open>now\<close> (the date
  and the time read on one day) whose target \<open>now - n * 8 hours\<close> is a datetime Python can
  hold: \<open>ris_get_last_dump_datetime\<close> returns the earliest element of the candidate list that
  is strictly after the target. The candidate list is in chronological order and, when its
  last point is a datetime Python can hold, consists of exactly \<open>3 * n\<close> timestamps, eight
  hours apart, starting at today's midnight. When the target would lie before year 1, the
  subtraction raises \<open>OverflowError\<close> and no timestamp is returned.
\<close>

theorem last_dump_is_earliest_after_target:
  assumes "1 \<le> n" and "valid_datetime now" and "today = date_of now"
  shows "if valid_datetime (now - RIPE_RIS_INTERVAL * n * US_PER_HOUR) then
           \<exists>dump_times t.
             ris_get_dump_times today n = Inr dump_times
             \<and> sorted_wrt (<) dump_times
             \<and> (valid_datetime
                   (midnight today + (3 * n - 1) * (RIPE_RIS_INTERVAL * US_PER_HOUR)) \<longrightarrow>
                  dump_times =
                    map (\<lambda>i. midnight today + int i * (RIPE_RIS_INTERVAL * US_PER_HOUR))
                      [0..<nat (3 * n)])
             \<and> ris_get_last_dump_datetime today now n = Inr t
             \<and> t \<in> set dump_times
             \<and> now - RIPE_RIS_INTERVAL * n * US_PER_HOUR < t
             \<and> (\<forall>u\<in>set dump_times.
                   now - RIPE_RIS_INTERVAL * n * US_PER_HOUR < u \<longrightarrow> t \<le> u)
         else ris_get_last_dump_datetime today now n = Inl OverflowError"
proof (cases "valid_datetime (now - RIPE_RIS_INTERVAL * n * US_PER_HOUR)")
  case False
  then show ?thesis by (simp add: last_dump_overflow)
next
  case target: True
  let ?ts = "rrule_hourly RIPE_RIS_INTERVAL today (3 * n)"
  let ?step = "RIPE_RIS_INTERVAL * US_PER_HOUR"
  have times: "ris_get_dump_times today n = Inr ?ts"
    by (rule ris_get_dump_times_small) (rule lookback_small [OF assms(2) target])
  have strict: "sorted_wrt (<) ?ts"
    by (rule rrule_hourly_strict) (simp add: RIPE_RIS_INTERVAL_def)
  have full: "?ts = map (\<lambda>i. midnight today + int i * ?step) [0..<nat (3 * n)]"
    if last: "valid_datetime (midnight today + (3 * n - 1) * ?step)"
  proof (rule rrule_hourly_full, intro allI impI)
    fix i assume i: "i < nat (3 * n)"
    have step: "0 \<le> ?step" by (simp add: RIPE_RIS_INTERVAL_def US_PER_HOUR_def)
    from i have "int i \<le> 3 * n - 1" by simp
    then have "int i * ?step \<le> (3 * n - 1) * ?step" using step by (rule mult_right_mono)
    moreover have "0 \<le> int i * ?step" using step by simp
    moreover have "0 \<le> midnight today"
      using valid_same_day [OF assms(2), of 0] assms(3)
      by (simp add: valid_datetime_def US_PER_DAY_def)
    ultimately show "valid_datetime (midnight today + int i * ?step)"
      using last by (simp add: valid_datetime_def)
  qed
  from last_dump_positive [OF assms target] times strict full
  have "\<exists>dump_times t.
             ris_get_dump_times today n = Inr dump_times
             \<and> sorted_wrt (<) dump_times
             \<and> (valid_datetime (midnight today + (3 * n - 1) * ?step) \<longrightarrow>
                  dump_times = map (\<lambda>i. midnight today + int i * ?step) [0..<nat (3 * n)])
             \<and> ris_get_last_dump_datetime today now n = Inr t
             \<and> t \<in> set dump_times
             \<and> now - RIPE_RIS_INTERVAL * n * US_PER_HOUR < t
             \<and> (\<forall>u\<in>set dump_times.
                   now - RIPE_RIS_INTERVAL * n * US_PER_HOUR < u \<longrightarrow> t \<le> u)"
    by blast
  with target show ?thesis by (simp only: if_True)
qed

theorem last_dump_is_earliest_after_target_witness:
  "(1 :: int) \<le> 1
   \<and> valid_datetime 63929385420000000
   \<and> 739923 = date_of 63929385420000000
   \<and> valid_datetime (63929385420000000 - RIPE_RIS_INTERVAL * 1 * US_PER_HOUR)
   \<and> valid_datetime (midnight 739923 + (3 * 1 - 1) * (RIPE_RIS_INTERVAL * US_PER_HOUR))
   \<and> (\<exists>dump_times t.
         ris_get_dump_times 739923 1 = Inr dump_times
         \<and> dump_times = [63929347200000000, 63929376000000000, 63929404800000000]
         \<and> ris_get_last_dump_datetime 739923 63929385420000000 1 = Inr t
         \<and> t \<in> set dump_times
         \<and> 63929385420000000 - RIPE_RIS_INTERVAL * 1 * US_PER_HOUR < t)
   \<and> ris_get_last_dump_datetime 739923 63929385420000000 1 = Inr 63929376000000000"
proof -
  have h1: "(1 :: int) \<le> 1" by simp
  have h2: "valid_datetime 63929385420000000"
    by (simp add: valid_datetime_def MAX_DAYS_def US_PER_DAY_def)
  have h3: "739923 = date_of 63929385420000000"
    by (simp add: date_of_def US_PER_DAY_def)
  have h4: "valid_datetime (63929385420000000 - RIPE_RIS_INTERVAL * 1 * US_PER_HOUR)"
    by (simp add: valid_datetime_def MAX_DAYS_def US_PER_DAY_def RIPE_RIS_INTERVAL_def
        US_PER_HOUR_def)
  have h5: "valid_datetime (midnight 739923 + (3 * 1 - 1) * (RIPE_RIS_INTERVAL * US_PER_HOUR))"
    by (simp add: valid_datetime_def MAX_DAYS_def US_PER_DAY_def RIPE_RIS_INTERVAL_def
        US_PER_HOUR_def midnight_def)
  have list: "map (\<lambda>i. midnight 739923 + int i * (RIPE_RIS_INTERVAL * US_PER_HOUR)) [0..<nat (3 * 1)]
      = [63929347200000000, 63929376000000000, 63929404800000000]"
    by code_simp
  from last_dump_is_earliest_after_target [OF h1 h2 h3] h4
  obtain dump_times t where times: "ris_get_dump_times 739923 1 = Inr dump_times"
    and full: "valid_datetime (midnight 739923 + (3 * 1 - 1) * (RIPE_RIS_INTERVAL * US_PER_HOUR)) \<longrightarrow>
        dump_times = map (\<lambda>i. midnight 739923 + int i * (RIPE_RIS_INTERVAL * US_PER_HOUR))
                       [0..<nat (3 * 1)]"
    and res: "ris_get_last_dump_datetime 739923 63929385420000000 1 = Inr t"
    and mem: "t \<in> set dump_times"
    and after: "63929385420000000 - RIPE_RIS_INTERVAL * 1 * US_PER_HOUR < t"
    and least: "\<forall>u\<in>set dump_times.
        63929385420000000 - RIPE_RIS_INTERVAL * 1 * US_PER_HOUR < u \<longrightarrow> t \<le> u"
    by (simp only: if_True) blast
  from full h5 list
  have dt: "dump_times = [63929347200000000, 63929376000000000, 63929404800000000]"
    by (simp only:)
  from mem after least have "t = 63929376000000000"
    unfolding dt by (auto simp: RIPE_RIS_INTERVAL_def US_PER_HOUR_def)
  with times res mem after dt
  have "(\<exists>dump_times t.
         ris_get_dump_times 739923 1 = Inr dump_times
         \<and> dump_times = [63929347200000000, 63929376000000000, 63929404800000000]
         \<and> ris_get_last_dump_datetime 739923 63929385420000000 1 = Inr t
         \<and> t \<in> set dump_times
         \<and> 63929385420000000 - RIPE_RIS_INTERVAL * 1 * US_PER_HOUR < t)
     \<and> ris_get_last_dump_datetime 739923 63929385420000000 1 = Inr 63929376000000000"
    by blast
  with h1 h2 h3 h4 h5 show ?thesis by blast
qed

text \<open>
  C2 as stated fails: on 2026-11-04 at 10:37, a lookback of three million dumps has its
  target long before year 1, and no timestamp is returned.
\<close>

theorem last_dump_overflow_for_huge_lookback:
  "ris_get_last_dump_datetime 739923 63929385420000000 3000000 = Inl OverflowError"
  by (rule last_dump_overflow)
    (simp add: valid_datetime_def RIPE_RIS_INTERVAL_def US_PER_HOUR_def)

text \<open>
  C3, as the code has it. With both readings of the clock on one day, the lookup raises an
  index error exactly when the lookback is zero or negative (the candidate list is then
  empty) and the target is a datetime Python can hold. For every positive lookback, however
  large, the list has an element after the target: the function returns a timestamp, or,
  when the target would lie before year 1, raises \<open>OverflowError\<close> in the subtraction,
  before any lookup.
\<close>

theorem index_error_iff_nonpositive_lookback:
  assumes "valid_datetime now" and "today = date_of now"
  shows "(ris_get_last_dump_datetime today now n = Inl IndexError \<longleftrightarrow>
            n \<le> 0 \<and> valid_datetime (now - RIPE_RIS_INTERVAL * n * US_PER_HOUR))
         \<and> (1 \<le> n \<longrightarrow>
              (if valid_datetime (now - RIPE_RIS_INTERVAL * n * US_PER_HOUR)
               then \<exists>t. ris_get_last_dump_datetime today now n = Inr t
               else ris_get_last_dump_datetime today now n = Inl OverflowError))"
proof -
  let ?target = "now - RIPE_RIS_INTERVAL * n * US_PER_HOUR"
  let ?r = "ris_get_last_dump_datetime today now n"
  have pos: "\<exists>t. ?r = Inr t" if "1 \<le> n" and "valid_datetime ?target"
    using last_dump_positive [OF that(1) assms that(2)] by blast
  have ovf: "?r = Inl OverflowError" if "\<not> valid_datetime ?target"
    using that by (rule last_dump_overflow)
  have nonpos: "?r = Inl IndexError" if "n \<le> 0" and "valid_datetime ?target"
    using that(1) assms(1) that(2) by (rule last_dump_nonpositive)
  have "?r = Inl IndexError \<longleftrightarrow> n \<le> 0 \<and> valid_datetime ?target"
  proof (cases "valid_datetime ?target")
    case False
    with ovf show ?thesis by simp
  next
    case True
    show ?thesis
    proof (cases "n \<le> 0")
      case True
      with nonpos \<open>valid_datetime ?target\<close> show ?thesis by simp
    next
      case False
      then have "1 \<le> n" by simp
      from pos [OF this \<open>valid_datetime ?target\<close>] False show ?thesis by auto
    qed
  qed
  with pos ovf show ?thesis by simp
qed

theorem index_error_iff_nonpositive_lookback_witness:
  "valid_datetime 63929385420000000
   \<and> 739923 = date_of 63929385420000000
   \<and> ris_get_last_dump_datetime 739923 63929385420000000 0 = Inl IndexError
   \<and> (\<exists>t. ris_get_last_dump_datetime 739923 63929385420000000 1000 = Inr t)
   \<and> ris_get_last_dump_datetime 739923 63929385420000000 3000000 = Inl OverflowError"
proof -
  have h1: "valid_datetime 63929385420000000"
    by (simp add: valid_datetime_def MAX_DAYS_def US_PER_DAY_def)
  have h2: "739923 = date_of 63929385420000000"
    by (simp add: date_of_def US_PER_DAY_def)
  have a: "ris_get_last_dump_datetime 739923 63929385420000000 0 = Inl IndexError"
    using index_error_iff_nonpositive_lookback [OF h1 h2, of 0] h1 by simp
  have b: "\<exists>t. ris_get_last_dump_datetime 739923 63929385420000000 1000 = Inr t"
    using index_error_iff_nonpositive_lookback [OF h1 h2, of 1000]
    by (simp add: valid_datetime_def MAX_DAYS_def US_PER_DAY_def RIPE_RIS_INTERVAL_def
        US_PER_HOUR_def)
  have c: "ris_get_last_dump_datetime 739923 63929385420000000 3000000 = Inl OverflowError"
    using index_error_iff_nonpositive_lookback [OF h1 h2, of 3000000]
    by (simp add: valid_datetime_def MAX_DAYS_def US_PER_DAY_def RIPE_RIS_INTERVAL_def
        US_PER_HOUR_def)
  from h1 h2 a b c show ?thesis by blast
qed

text \<open>
  C3 as stated fails: no positive lookback, with both clock readings on one day, makes the
  lookup raise an index error.
\<close>

theorem no_index_error_for_positive_lookback:
  "\<not> (\<exists>n today now. 1 \<le> n \<and> valid_datetime now \<and> today = date_of now
         \<and> ris_get_last_dump_datetime today now n = Inl IndexError)"
proof
  assume "\<exists>n today now. 1 \<le> n \<and> valid_datetime now \<and> today = date_of now
         \<and> ris_get_last_dump_datetime today now n = Inl IndexError"
  then obtain n today now where n: "1 \<le> n" and now: "valid_datetime now"
    and today: "today = date_of now"
    and err: "ris_get_last_dump_datetime today now n = Inl IndexError" by blast
  show False
  proof (cases "valid_datetime (now - RIPE_RIS_INTERVAL * n * US_PER_HOUR)")
    case True
    from last_dump_positive [OF n now today True] err show False by auto
  next
    case False
    from last_dump_overflow [OF False, of today] err show False by simp
  qed
qed

text \<open>
  The same-day condition is needed: when the date is read just before midnight and the
  time just after, a lookback of one leaves the target at 16:00 of the day read, the last
  of the three candidates, and the lookup fails.
\<close>

lemma midnight_race_example:
  "ris_get_last_dump_datetime 739923 (midnight 739924 + 1) 1 = Inl IndexError"
  by code_simp

lemma ris_format_timestamp_example:
  "ris_format_timestamp 63844900620000000 = ''2024-03-01T14:37''"
  by code_simp

section \<open>Properties of the target validation\<close>

lemma map_result_error: "map_result f xs = Inl e \<Longrightarrow> \<exists>x\<in>set xs. f x = Inl e"
  by (induction xs) (auto split: sum.splits)

lemma ip_int_from_string_v4_error: "ip_int_from_string_v4 s = Inl e \<Longrightarrow> e = AddressValueError"
  by (auto simp: ip_int_from_string_v4_def parse_octet_def Let_def
      dest!: map_result_error split: if_splits sum.splits)

lemma IPv4Address_error: "IPv4Address s = Inl e \<Longrightarrow> e = AddressValueError"
  by (auto simp: IPv4Address_def dest: ip_int_from_string_v4_error split: if_splits)

lemma prefix_from_prefix_string_error:
  "prefix_from_prefix_string bits s = Inl e \<Longrightarrow> e = NetmaskValueError"
  by (auto simp: prefix_from_prefix_string_def Let_def split: if_splits)

lemma prefix_from_ip_int_error: "prefix_from_ip_int bits k = Inl e \<Longrightarrow> e = ValueError"
  by (auto simp: prefix_from_ip_int_def Let_def split: if_splits)

lemma prefix_from_ip_string_v4_error:
  "prefix_from_ip_string_v4 s = Inl e \<Longrightarrow> e = NetmaskValueError"
  by (auto simp: prefix_from_ip_string_v4_def
      dest!: ip_int_from_string_v4_error prefix_from_ip_int_error
      split: sum.splits if_splits)

lemma make_netmask_v4_error: "make_netmask_v4 m = Inl e \<Longrightarrow> e = NetmaskValueError"
  by (auto simp: make_netmask_v4_def
      dest!: prefix_from_prefix_string_error prefix_from_ip_string_v4_error
      split: sum.splits if_splits mask_arg.splits)

lemma split_addr_prefix_error: "split_addr_prefix bits s = Inl e \<Longrightarrow> e = AddressValueError"
  by (auto simp: split_addr_prefix_def split_optional_netmask_def Let_def
      split: sum.splits if_splits)

lemma IPv4Network_error: "IPv4Network s = Inl e \<Longrightarrow> is_ValueError e"
  by (auto simp: IPv4Network_def
      dest!: split_addr_prefix_error IPv4Address_error make_netmask_v4_error
      split: sum.splits if_splits prod.splits)

lemma parse_hextet_error: "parse_hextet s = Inl e \<Longrightarrow> e = ValueError"
  by (auto simp: parse_hextet_def split: if_splits)

lemma hextets_to_int_error: "hextets_to_int ps = Inl e \<Longrightarrow> e = AddressValueError"
  by (auto simp: hextets_to_int_def Let_def
      dest!: map_result_error parse_hextet_error
      split: sum.splits if_splits list.splits prod.splits)

lemma ip_int_from_string_v6_error: "ip_int_from_string_v6 s = Inl e \<Longrightarrow> e = AddressValueError"
  by (auto simp: ip_int_from_string_v6_def Let_def
      dest!: hextets_to_int_error IPv4Address_error
      split: sum.splits if_splits)

lemma IPv6Address_error: "IPv6Address s = Inl e \<Longrightarrow> e = AddressValueError"
  by (auto simp: IPv6Address_def split_scope_id_def Let_def
      dest!: ip_int_from_string_v6_error
      split: sum.splits if_splits prod.splits)

lemma make_netmask_v6_error: "make_netmask_v6 m = Inl e \<Longrightarrow> e = NetmaskValueError"
  by (auto simp: make_netmask_v6_def
      dest!: prefix_from_prefix_string_error
      split: sum.splits if_splits mask_arg.splits)

lemma IPv6Network_error: "IPv6Network s = Inl e \<Longrightarrow> is_ValueError e"
  by (auto simp: IPv6Network_def
      dest!: split_addr_prefix_error IPv6Address_error make_netmask_v6_error
      split: sum.splits if_splits prod.splits)

lemma validate_target_total: "\<exists>b. validate_target target = Inr b"
  by (auto simp: validate_target_def dest: IPv4Network_error IPv6Network_error
      split: sum.splits)

lemma validate_target_True_iff:
  "validate_target target = Inr True \<longleftrightarrow>
     CHR ''/'' \<in> set target \<and>
     (if CHR '':'' \<in> set target then \<exists>r. IPv6Network target = Inr r
      else \<exists>r. IPv4Network target = Inr r)"
  by (auto simp: validate_target_def split: sum.splits)


lemma split_on_no_sep: "sep \<notin> set s \<Longrightarrow> split_on sep s = [s]"
  by (induction s) auto

lemma split_on_append: "sep \<notin> set a \<Longrightarrow> split_on sep (a @ sep # b) = a # split_on sep b"
  by (induction a) auto

lemma split_addr_prefix_slash:
  assumes "CHR ''/'' \<notin> set addr" and "CHR ''/'' \<notin> set len"
  shows "split_addr_prefix bits (addr @ ''/'' @ len) = Inr (addr, MaskStr len)"
  using assms
  by (simp add: split_addr_prefix_def split_optional_netmask_def split_on_append split_on_no_sep)

text \<open>A netmask has no bit in the host part, so an address with a host bit differs from its
  network address.\<close>

lemma host_bits_differ:
  assumes "p \<le> bits" and "ip mod 2 ^ (bits - p) \<noteq> 0"
  shows "ip AND ip_int_from_prefix bits p \<noteq> ip"
proof
  assume eq: "ip AND ip_int_from_prefix bits p = ip"
  have mask: "ip_int_from_prefix bits p = mask bits XOR mask (bits - p)"
    by (simp add: ip_int_from_prefix_def ALL_ONES_def drop_bit_mask_eq flip: mask_eq_exp_minus_1)
  have "take_bit (bits - p) ip = 0"
  proof (rule bit_eqI)
    fix i
    have "bit ip i \<longrightarrow> bit (ip_int_from_prefix bits p) i"
      using eq by (metis bit_and_iff)
    then show "bit (take_bit (bits - p) ip) i = bit (0 :: int) i"
      using assms(1) by (auto simp: mask bit_take_bit_iff bit_xor_iff bit_mask_iff)
  qed
  with assms(2) show False by (simp add: take_bit_eq_mod)
qed

lemma make_netmask_v4_netmask:
  "make_netmask_v4 m = Inr (netmask, p) \<Longrightarrow> netmask = ip_int_from_prefix 32 p"
  by (auto simp: make_netmask_v4_def split: sum.splits)

lemma make_netmask_v6_netmask:
  "make_netmask_v6 m = Inr (netmask, p) \<Longrightarrow> netmask = ip_int_from_prefix 128 p"
  by (auto simp: make_netmask_v6_def split: sum.splits)

text \<open>
  C5. \<open>validate_target\<close> returns true exactly when the target contains a slash and parses
  as a network of the family its text selects: IPv6 when it contains a colon, IPv4
  otherwise. It raises nothing. \<open>193.0.14.0/24\<close> and \<open>2001:db8::/32\<close> are valid;
  \<open>193.0.14.0\<close>, which has no slash, and \<open>not-an-ip/24\<close> are not.
\<close>

theorem validate_target_accepts_networks:
  "(validate_target target = Inr True \<longleftrightarrow>
      CHR ''/'' \<in> set target \<and>
      (if CHR '':'' \<in> set target then \<exists>r. IPv6Network target = Inr r
       else \<exists>r. IPv4Network target = Inr r))
   \<and> (validate_target target = Inr True \<or> validate_target target = Inr False)
   \<and> validate_target ''193.0.14.0/24'' = Inr True
   \<and> validate_target ''2001:db8::/32'' = Inr True
   \<and> validate_target ''193.0.14.0'' = Inr False
   \<and> validate_target ''not-an-ip/24'' = Inr False"
proof -
  have total: "validate_target target = Inr True \<or> validate_target target = Inr False"
    using validate_target_total [of target] by auto
  have 1: "validate_target ''193.0.14.0/24'' = Inr True" by code_simp
  have 2: "validate_target ''2001:db8::/32'' = Inr True" by code_simp
  have 3: "validate_target ''193.0.14.0'' = Inr False" by code_simp
  have 4: "validate_target ''not-an-ip/24'' = Inr False" by code_simp
  from validate_target_True_iff [of target] total 1 2 3 4 show ?thesis by simp
qed

text \<open>
  C9. A target \<open>address/len\<close> whose address has a bit set below the mask is rejected, in
  either family: the address is then not a multiple of the network's size
  \<open>2 ^ (bits - len)\<close>, and the network constructors are strict. \<open>193.0.14.129/24\<close>, the
  host the help text starts from, is such a target.
\<close>

theorem host_bits_set_rejected:
  assumes "CHR ''/'' \<notin> set addr" and "CHR ''/'' \<notin> set len"
  shows "(CHR '':'' \<notin> set (addr @ len) \<and> IPv4Address addr = Inr ip
            \<and> make_netmask_v4 (MaskStr len) = Inr (netmask, p) \<and> ip mod 2 ^ (32 - p) \<noteq> 0 \<longrightarrow>
          validate_target (addr @ ''/'' @ len) = Inr False)
       \<and> (CHR '':'' \<in> set (addr @ len) \<and> IPv6Address addr = Inr ip
            \<and> make_netmask_v6 (MaskStr len) = Inr (netmask, p) \<and> ip mod 2 ^ (128 - p) \<noteq> 0 \<longrightarrow>
          validate_target (addr @ ''/'' @ len) = Inr False)"
proof -
  have v4: "validate_target (addr @ ''/'' @ len) = Inr False"
    if "CHR '':'' \<notin> set (addr @ len)" and a: "IPv4Address addr = Inr ip"
      and m: "make_netmask_v4 (MaskStr len) = Inr (netmask, p)"
      and h: "ip mod 2 ^ (32 - p) \<noteq> 0"
  proof -
    from h have "p \<le> 32" by (cases "p \<le> 32") simp_all
    from host_bits_differ [OF this h] make_netmask_v4_netmask [OF m]
    have "ip AND netmask \<noteq> ip" by simp
    then have "IPv4Network (addr @ ''/'' @ len) = Inl ValueError"
      using a m split_addr_prefix_slash [OF assms, of 32] by (simp add: IPv4Network_def)
    with that(1) show ?thesis by (simp add: validate_target_def)
  qed
  have v6: "validate_target (addr @ ''/'' @ len) = Inr False"
    if "CHR '':'' \<in> set (addr @ len)" and a: "IPv6Address addr = Inr ip"
      and m: "make_netmask_v6 (MaskStr len) = Inr (netmask, p)"
      and h: "ip mod 2 ^ (128 - p) \<noteq> 0"
  proof -
    from h have "p \<le> 128" by (cases "p \<le> 128") simp_all
    from host_bits_differ [OF this h] make_netmask_v6_netmask [OF m]
    have "ip AND netmask \<noteq> ip" by simp
    then have "IPv6Network (addr @ ''/'' @ len) = Inl ValueError"
      using a m split_addr_prefix_slash [OF assms, of 128] by (simp add: IPv6Network_def)
    with that(1) show ?thesis by (simp add: validate_target_def)
  qed
  from v4 v6 show ?thesis by blast
qed

theorem host_bits_set_rejected_witness:
  "CHR ''/'' \<notin> set ''193.0.14.129'' \<and> CHR ''/'' \<notin> set ''24''
   \<and> IPv4Address ''193.0.14.129'' = Inr 3238006401
   \<and> make_netmask_v4 (MaskStr ''24'') = Inr (4294967040, 24)
   \<and> (3238006401 :: int) mod 2 ^ (32 - 24) = 129
   \<and> validate_target ''193.0.14.129/24'' = Inr False
   \<and> IPv6Address ''2001:db8::1'' = Inr 42540766411282592856903984951653826561
   \<and> validate_target ''2001:db8::1/32'' = Inr False"
proof -
  have a: "IPv4Address ''193.0.14.129'' = Inr 3238006401" by code_simp
  have m: "make_netmask_v4 (MaskStr ''24'') = Inr (4294967040, 24)" by code_simp
  have h: "(3238006401 :: int) mod 2 ^ (32 - 24) = 129" by simp
  have v4: "validate_target ''193.0.14.129/24'' = Inr False"
    using host_bits_set_rejected [of "''193.0.14.129''" "''24''" 3238006401 4294967040 24] a m h
    by simp
  have a6: "IPv6Address ''2001:db8::1'' = Inr 42540766411282592856903984951653826561"
    by code_simp
  have m6: "make_netmask_v6 (MaskStr ''32'')
      = Inr (340282366841710300949110269838224261120, 32)" by code_simp
  have v6: "validate_target ''2001:db8::1/32'' = Inr False"
    using host_bits_set_rejected [of "''2001:db8::1''" "''32''"
        42540766411282592856903984951653826561 340282366841710300949110269838224261120 32]
      a6 m6
    by simp
  from a m h v4 a6 v6 show ?thesis by simp
qed

section \<open>Properties of a run\<close>

lemma ris_get_dump_times_zero: "ris_get_dump_times today 0 = Inr []"
  by (simp add: ris_get_dump_times_def rrule_hourly_def)

lemma main_invalid:
  "validate_target target = Inr False \<Longrightarrow> main n target env = ([PrintHelpStderr], Exit 1)"
  by (simp add: main_def)

lemma main_valid_exit:
  assumes "validate_target target = Inr True" and "snd (main n target env) = Exit code"
  shows "code = 0"
  using assms by (auto simp: main_def Let_def split: sum.splits)

lemma main_valid_lookup_error:
  assumes "validate_target target = Inr True"
    and "ris_get_last_dump_datetime (env_today env) (env_now_lookup env) n = Inl e"
  shows "main n target env = ([], Uncaught e)"
  using assms by (simp add: main_def)

text \<open>
  C6. When the target does not validate, the run prints the help text to standard error
  and exits with code 1; it has made no request. When the target validates and the run
  ends with \<open>sys.exit\<close> and not with an exception, the exit code is 0; so it is when the
  comparison finds no difference and nothing is printed.
\<close>

theorem main_exit_codes:
  "(validate_target target = Inr False \<longrightarrow>
      main n target env = ([PrintHelpStderr], Exit 1)
      \<and> (\<forall>url. HttpGet url \<notin> set (fst (main n target env))))
   \<and> (validate_target target = Inr True \<and> snd (main n target env) = Exit code \<longrightarrow> code = 0)
   \<and> (validate_target target = Inr True
        \<and> ris_get_last_dump_datetime (env_today env) (env_now_lookup env) n = Inr then_dt
        \<and> ris_get_bgp_state (env_script env) (env_http env) target
             (ris_format_timestamp then_dt) = Inr then_res
        \<and> ris_get_bgp_state (env_script env) (env_http env) target
             (ris_format_timestamp (env_now_main env)) = Inr now_res
        \<and> ris_compare_aspaths (env_numpy_wide env) then_res now_res = Inr [] \<longrightarrow>
      main n target env =
        ([HttpGet (bgp_state_url (env_script env) target (ris_format_timestamp then_dt)),
          HttpGet (bgp_state_url (env_script env) target
                     (ris_format_timestamp (env_now_main env)))],
         Exit 0))"
proof -
  have 1: "main n target env = ([PrintHelpStderr], Exit 1)
      \<and> (\<forall>url. HttpGet url \<notin> set (fst (main n target env)))"
    if "validate_target target = Inr False"
    using main_invalid [OF that, of n env] by simp
  have 2: "code = 0"
    if "validate_target target = Inr True" and "snd (main n target env) = Exit code"
    using that by (rule main_valid_exit)
  have 3: "main n target env =
        ([HttpGet (bgp_state_url (env_script env) target (ris_format_timestamp then_dt)),
          HttpGet (bgp_state_url (env_script env) target
                     (ris_format_timestamp (env_now_main env)))],
         Exit 0)"
    if "validate_target target = Inr True"
      and "ris_get_last_dump_datetime (env_today env) (env_now_lookup env) n = Inr then_dt"
      and "ris_get_bgp_state (env_script env) (env_http env) target
             (ris_format_timestamp then_dt) = Inr then_res"
      and "ris_get_bgp_state (env_script env) (env_http env) target
             (ris_format_timestamp (env_now_main env)) = Inr now_res"
      and "ris_compare_aspaths (env_numpy_wide env) then_res now_res = Inr []"
    using that by (simp add: main_def Let_def)
  from 1 2 3 show ?thesis by blast
qed

theorem main_exit_codes_witness:
  "validate_target ''193.0.14.0'' = Inr False
   \<and> main 3 ''193.0.14.0''
        \<lparr>env_script = ''compare-aspaths.py'', env_now_main = 63929385420000000,
         env_today = 739923, env_now_lookup = 63929385420000000,
         env_http = (\<lambda>url. Inr \<lparr>status_code = 200,
                                 json = Inr [\<lparr>source_id = 1 :: nat, path = [100, 200, 300]\<rparr>]\<rparr>),
         env_numpy_wide = (\<lambda>a b. False)\<rparr>
       = ([PrintHelpStderr], Exit 1)
   \<and> validate_target ''193.0.14.0/24'' = Inr True
   \<and> main 3 ''193.0.14.0/24''
        \<lparr>env_script = ''compare-aspaths.py'', env_now_main = 63929385420000000,
         env_today = 739923, env_now_lookup = 63929385420000000,
         env_http = (\<lambda>url. Inr \<lparr>status_code = 200,
                                 json = Inr [\<lparr>source_id = 1 :: nat, path = [100, 200, 300]\<rparr>]\<rparr>),
         env_numpy_wide = (\<lambda>a b. False)\<rparr>
       = ([HttpGet ''https://stat.ripe.net/data/bgp-state/data.json?sourceapp=compare-aspaths.py&resource=193.0.14.0/24&timestamp=2026-11-04T00:00'',
           HttpGet ''https://stat.ripe.net/data/bgp-state/data.json?sourceapp=compare-aspaths.py&resource=193.0.14.0/24&timestamp=2026-11-04T10:37''],
          Exit 0)"
proof -
  let ?env = "\<lparr>env_script = ''compare-aspaths.py'', env_now_main = 63929385420000000,
         env_today = 739923, env_now_lookup = 63929385420000000,
         env_http = (\<lambda>url. Inr \<lparr>status_code = 200,
                                 json = Inr [\<lparr>source_id = 1 :: nat, path = [100, 200, 300]\<rparr>]\<rparr>),
         env_numpy_wide = (\<lambda>a b. False)\<rparr>"
  have bad: "validate_target ''193.0.14.0'' = Inr False" by code_simp
  have good: "validate_target ''193.0.14.0/24'' = Inr True" by code_simp
  have a: "main 3 ''193.0.14.0'' ?env = ([PrintHelpStderr], Exit 1)"
    using main_exit_codes [of "''193.0.14.0''" 3 ?env] bad by simp
  have run: "main 3 ''193.0.14.0/24'' ?env
       = ([HttpGet ''https://stat.ripe.net/data/bgp-state/data.json?sourceapp=compare-aspaths.py&resource=193.0.14.0/24&timestamp=2026-11-04T00:00'',
           HttpGet ''https://stat.ripe.net/data/bgp-state/data.json?sourceapp=compare-aspaths.py&resource=193.0.14.0/24&timestamp=2026-11-04T10:37''],
          Exit 0)"
    by code_simp
  have "snd (main 3 ''193.0.14.0/24'' ?env) = Exit 0"
    using main_exit_codes [of "''193.0.14.0/24''" 3 ?env 0] good run by simp
  with bad good a run show ?thesis by simp
qed

text \<open>
  C10. With a lookback of zero the candidate list is empty (a count of \<open>24/8 * 0 = 0\<close>), and
  the lookup indexes into it: \<open>ris_get_last_dump_datetime\<close> raises \<open>IndexError\<close>. Nothing in
  the script rules the value out before: a run with a valid target and \<open>-n 0\<close> ends with
  that exception, before any request.
\<close>

theorem zero_lookback_index_error:
  "ris_get_dump_times today 0 = Inr []
   \<and> (valid_datetime now \<longrightarrow> ris_get_last_dump_datetime today now 0 = Inl IndexError)
   \<and> (validate_target target = Inr True \<and> valid_datetime (env_now_lookup env) \<longrightarrow>
        main 0 target env = ([], Uncaught IndexError))"
proof -
  have lookup: "ris_get_last_dump_datetime d t 0 = Inl IndexError" if "valid_datetime t" for d t
    using that by (intro last_dump_nonpositive) simp_all
  have "main 0 target env = ([], Uncaught IndexError)"
    if "validate_target target = Inr True" and "valid_datetime (env_now_lookup env)"
    using that(1) lookup [OF that(2)] by (rule main_valid_lookup_error)
  with lookup [of now today] ris_get_dump_times_zero [of today] show ?thesis by blast
qed

theorem zero_lookback_index_error_witness:
  "valid_datetime 63929385420000000
   \<and> validate_target ''193.0.14.0/24'' = Inr True
   \<and> ris_get_dump_times 739923 0 = Inr []
   \<and> ris_get_last_dump_datetime 739923 63929385420000000 0 = Inl IndexError
   \<and> main 0 ''193.0.14.0/24''
        \<lparr>env_script = ''compare-aspaths.py'', env_now_main = 63929385420000000,
         env_today = 739923, env_now_lookup = 63929385420000000,
         env_http = (\<lambda>url. Inr \<lparr>status_code = 200,
                                 json = Inr [\<lparr>source_id = 1 :: nat, path = [100, 200, 300]\<rparr>]\<rparr>),
         env_numpy_wide = (\<lambda>a b. True)\<rparr>
       = ([], Uncaught IndexError)"
proof -
  let ?env = "\<lparr>env_script = ''compare-aspaths.py'', env_now_main = 63929385420000000,
         env_today = 739923, env_now_lookup = 63929385420000000,
         env_http = (\<lambda>url. Inr \<lparr>status_code = 200,
                                 json = Inr [\<lparr>source_id = 1 :: nat, path = [100, 200, 300]\<rparr>]\<rparr>),
         env_numpy_wide = (\<lambda>a b. True)\<rparr>"
  have now: "valid_datetime 63929385420000000"
    by (simp add: valid_datetime_def MAX_DAYS_def US_PER_DAY_def)
  have good: "validate_target ''193.0.14.0/24'' = Inr True" by code_simp
  from zero_lookback_index_error [of 739923 63929385420000000 "''193.0.14.0/24''" ?env] now good
  show ?thesis by simp
qed

text \<open>
  C1 does not hold of the code. When the response to the "then" query has a status other
  than 200 that the transport hands through, such as 204, \<open>ris_get_bgp_state\<close> gives
  \<open>None\<close>; the comparison subscripts \<open>None\<close> and the run ends with an uncaught \<open>TypeError\<close>,
  after both requests and before any output. The same happens when the "now" query is the
  one so answered. (A transport that raises for a status such as 404 ends the run earlier,
  with its own exception.)
\<close>

theorem non_200_snapshot_raises_TypeError:
  "main 3 ''193.0.14.0/24''
     \<lparr>env_script = ''compare-aspaths.py'', env_now_main = 63929385420000000,
      env_today = 739923, env_now_lookup = 63929385420000000,
      env_http = (\<lambda>url.
        if url = ''https://stat.ripe.net/data/bgp-state/data.json?sourceapp=compare-aspaths.py&resource=193.0.14.0/24&timestamp=2026-11-04T00:00''
        then Inr \<lparr>status_code = 204, json = Inl JSONDecodeError\<rparr>
        else Inr \<lparr>status_code = 200,
                  json = Inr [\<lparr>source_id = 1 :: nat, path = [100, 250, 300]\<rparr>]\<rparr>),
         env_numpy_wide = (\<lambda>a b. True)\<rparr>
     = ([HttpGet ''https://stat.ripe.net/data/bgp-state/data.json?sourceapp=compare-aspaths.py&resource=193.0.14.0/24&timestamp=2026-11-04T00:00'',
         HttpGet ''https://stat.ripe.net/data/bgp-state/data.json?sourceapp=compare-aspaths.py&resource=193.0.14.0/24&timestamp=2026-11-04T10:37''],
        Uncaught TypeError)
   \<and> main 3 ''193.0.14.0/24''
     \<lparr>env_script = ''compare-aspaths.py'', env_now_main = 63929385420000000,
      env_today = 739923, env_now_lookup = 63929385420000000,
      env_http = (\<lambda>url.
        if url = ''https://stat.ripe.net/data/bgp-state/data.json?sourceapp=compare-aspaths.py&resource=193.0.14.0/24&timestamp=2026-11-04T10:37''
        then Inr \<lparr>status_code = 204, json = Inl JSONDecodeError\<rparr>
        else Inr \<lparr>status_code = 200,
                  json = Inr [\<lparr>source_id = 1 :: nat, path = [100, 200, 300]\<rparr>]\<rparr>),
         env_numpy_wide = (\<lambda>a b. True)\<rparr>
     = ([HttpGet ''https://stat.ripe.net/data/bgp-state/data.json?sourceapp=compare-aspaths.py&resource=193.0.14.0/24&timestamp=2026-11-04T00:00'',
         HttpGet ''https://stat.ripe.net/data/bgp-state/data.json?sourceapp=compare-aspaths.py&resource=193.0.14.0/24&timestamp=2026-11-04T10:37''],
        Uncaught TypeError)
   \<and> ris_compare_aspaths (\<lambda>a b. True) None (Some [\<lparr>source_id = 1 :: nat, path = [100, 250, 300]\<rparr>])
       = Inl TypeError
   \<and> ris_compare_aspaths (\<lambda>a b. True)
       (Some [\<lparr>source_id = 1 :: nat, path = [100, 200, 300]\<rparr>]) None
       = Inl TypeError"
  by code_simp

end
